theory Spec2Isabelle
  imports Complex_Main
begin

section \<open>Basic types: identifiers, time, numbers, errors\<close>

text \<open>
  A \<open>uuid.UUID\<close> is a natural number; \<open>uuid.Nil\<close> is \<open>0\<close>. A \<open>time.Time\<close> is an
  instant, counted in nanoseconds since the Unix epoch and read in UTC (the handlers
  parse every date and time with \<open>time.Parse\<close>, which yields UTC). A \<open>float64\<close> is
  idealised as a real number: the formulas are those of the source, the rounding of
  the floating-point unit is not part of the model.
\<close>

type_synonym uuid = nat
type_synonym time = int
type_synonym duration = int
type_synonym float64 = real

definition Hour :: duration where
  "Hour = 3600 * 1000000000"

definition Sub :: "time \<Rightarrow> time \<Rightarrow> duration" where
  "Sub t u = t - u"

definition Add :: "time \<Rightarrow> duration \<Rightarrow> time" where
  "Add t d = t + d"

definition After :: "time \<Rightarrow> time \<Rightarrow> bool" where
  "After t u = (u < t)"

definition Before :: "time \<Rightarrow> time \<Rightarrow> bool" where
  "Before t u = (t < u)"

definition Equal :: "time \<Rightarrow> time \<Rightarrow> bool" where
  "Equal t u = (t = u)"

text \<open>\<open>Duration.Hours\<close>: the duration as a number of hours, with its fraction.\<close>

definition Duration_Hours :: "duration \<Rightarrow> float64" where
  "Duration_Hours d = real_of_int d / real_of_int Hour"

text \<open>The zero \<open>time.Time\<close> (January 1, year 1, 00:00 UTC) and \<open>Time.IsZero\<close>.\<close>

definition ZeroTime :: time where
  "ZeroTime = - 62135596800 * 1000000000"

definition IsZero :: "time \<Rightarrow> bool" where
  "IsZero t = (t = ZeroTime)"

text \<open>
  The calendar day of an instant, as the number of days since 1970-01-01. It stands for
  \<open>t.Format("2006-01-02")\<close>: two instants format to the same string exactly when they
  have the same day number, and the strings are ordered as the day numbers are.
\<close>

definition FormatDate :: "time \<Rightarrow> int" where
  "FormatDate t = t div (24 * Hour)"

datatype weekday = Sunday | Monday | Tuesday | Wednesday | Thursday | Friday | Saturday

text \<open>\<open>Time.Weekday\<close>: 1970-01-01 was a Thursday.\<close>

definition Weekday :: "time \<Rightarrow> weekday" where
  "Weekday t =
     (let n = (FormatDate t + 4) mod 7 in
      if n = 0 then Sunday else if n = 1 then Monday else if n = 2 then Tuesday
      else if n = 3 then Wednesday else if n = 4 then Thursday
      else if n = 5 then Friday else Saturday)"

text \<open>
  The errors of the services and repositories, one constructor for each
  \<open>errors.New\<close> and \<open>fmt.Errorf\<close> of the source (a wrapping error keeps the error it
  wraps; the two \<open>payroll period not found\<close> errors, of the same message, share
  one). \<open>ErrDB\<close> is any error of the database driver, \<open>ErrJSONUnsupportedType\<close>
  the error of \<open>json.Marshal\<close>. \<open>PanicNilDereference\<close> is the
  run-time panic of dereferencing a nil pointer, which is not an \<open>error\<close> value in Go:
  it unwinds through the callers, also through those that discard returned errors.
\<close>

datatype error =
    ErrPayrollPeriodNotFound
  | ErrPayrollAlreadyProcessed
  | ErrEmployeeProfileNotFound
  | ErrCalculatePayslip uuid error
  | ErrSavePayslip uuid error
  | ErrUpdateAttendances uuid error
  | ErrUpdateOvertimes uuid error
  | ErrUpdateReimbursements uuid error
  | ErrMarkProcessed error
  | ErrNoPayrollPeriodUpdated
  | ErrWeekendAttendance
  | ErrOvertimeCapExceeded int float64
  | ErrEndDateNotAfterStartDate
  | ErrOverlappingPayrollPeriod
  | ErrDB string
  | ErrJSONUnsupportedType
  | PanicNilDereference

section \<open>The domain model\<close>

text \<open>
  The structs of package \<open>domain\<close>. An embedded \<open>BaseModel\<close> is the parent record.
  The soft-delete column \<open>DeletedAt\<close> and the preloaded associations (\<open>User\<close>,
  \<open>PayrollPeriod\<close>, the transient lists of a payslip) are left out: no function of the
  services sets or reads them. A nullable pointer field is an \<open>option\<close>.
\<close>

record BaseModel =
  ID :: uuid
  CreatedAt :: time
  UpdatedAt :: time
  CreatedBy :: uuid
  UpdatedBy :: uuid
  IPAddress :: string

record PayrollPeriod = BaseModel +
  StartDate :: time
  EndDate :: time
  IsProcessed :: bool
  ProcessedAt :: "time option"

record EmployeeProfile = BaseModel +
  UserID :: uuid
  Salary :: float64

record Attendance = BaseModel +
  UserID :: uuid
  Date :: time
  CheckInTime :: time
  CheckOutTime :: time
  PayrollPeriodID :: "uuid option"

record Overtime = BaseModel +
  UserID :: uuid
  Date :: time
  Hours :: float64
  PayrollPeriodID :: "uuid option"

record Reimbursement = BaseModel +
  UserID :: uuid
  Amount :: float64
  Description :: string
  PayrollPeriodID :: "uuid option"

record Payslip = BaseModel +
  UserID :: uuid
  PayrollPeriodID :: uuid
  BaseSalary :: float64
  ProratedSalary :: float64
  OvertimePay :: float64
  TotalReimbursement :: float64
  TotalTakeHomePay :: float64

text \<open>
  The JSON snapshots of an audit entry: the encoding of \<open>nil\<close> or of an entity, kept
  as the entity itself.
\<close>

datatype json =
    JNull
  | JAttendance Attendance
  | JOvertime Overtime
  | JReimbursement Reimbursement
  | JPayslip Payslip
  | JPayrollPeriod PayrollPeriod

text \<open>
  The values of type \<open>any\<close> that are handed to the audit helper as snapshots: \<open>nil\<close>,
  a pointer to an entity, or a value of a kind that \<open>encoding/json\<close> does not encode (a
  channel, a function, a complex number), for which \<open>json.Marshal\<close> returns an error.
  The entities encode: their fields are identifiers, strings, booleans, instants and
  numbers. With \<open>float64\<close> read as the reals there is no \<open>NaN\<close> and no infinity
  for the encoder to refuse, and the instants of the entities, which come from
  \<open>time.Now\<close> and from \<open>time.Parse\<close> with four-digit years, are within the years
  0 to 9999 in which a \<open>time.Time\<close> encodes.
\<close>

datatype any =
    AnyNil
  | AnyAttendance Attendance
  | AnyOvertime Overtime
  | AnyReimbursement Reimbursement
  | AnyPayslip Payslip
  | AnyPayrollPeriod PayrollPeriod
  | AnyUnsupported

fun json_Marshal :: "any \<Rightarrow> error + json" where
  "json_Marshal AnyNil = Inr JNull"
| "json_Marshal (AnyAttendance a) = Inr (JAttendance a)"
| "json_Marshal (AnyOvertime ot) = Inr (JOvertime ot)"
| "json_Marshal (AnyReimbursement r) = Inr (JReimbursement r)"
| "json_Marshal (AnyPayslip p) = Inr (JPayslip p)"
| "json_Marshal (AnyPayrollPeriod p) = Inr (JPayrollPeriod p)"
| "json_Marshal AnyUnsupported = Inl ErrJSONUnsupportedType"

record AuditLog = BaseModel +
  UserID :: "uuid option"
  Action :: string
  EntityName :: string
  EntityID :: "uuid option"
  OldValue :: json
  NewValue :: json
  RequestID :: string
  Timestamp :: time

section \<open>The database and the primitives of the object-relational mapper\<close>

text \<open>
  The database is one list of rows for each table. A row is kept as it was written: the
  coercions of the SQL column types are not modelled (a column of type \<open>date\<close> holds
  a calendar date, which is midnight UTC of its day). The primitives below are the
  calls of the mapper that the repositories make (\<open>Create\<close>, \<open>First\<close>, \<open>Find\<close>,
  \<open>Save\<close>); in this model the database itself never fails, except on a duplicate
  primary key. Failures of the persistence layer are covered by stating the theorems
  on the services for every implementation of the repository interfaces.
\<close>

record DB =
  tbl_payroll_periods :: "PayrollPeriod list"
  tbl_employee_profiles :: "EmployeeProfile list"
  tbl_attendances :: "Attendance list"
  tbl_overtimes :: "Overtime list"
  tbl_reimbursements :: "Reimbursement list"
  tbl_payslips :: "Payslip list"
  tbl_audit_logs :: "AuditLog list"

text \<open>
  \<open>uuid.New\<close> draws a random identifier. The model takes the successor of the largest
  identifier of the table: it is not \<open>uuid.Nil\<close> and no row of the table has it.
\<close>

definition uuid_New :: "'a BaseModel_scheme list \<Rightarrow> uuid" where
  "uuid_New rows = Suc (fold max (map ID rows) 0)"

text \<open>The hook \<open>BaseModel.BeforeCreate\<close>.\<close>

definition BeforeCreate :: "'a BaseModel_scheme list \<Rightarrow> 'a BaseModel_scheme \<Rightarrow> 'a BaseModel_scheme" where
  "BeforeCreate rows b = (if ID b = 0 then b\<lparr>ID := uuid_New rows\<rparr> else b)"

text \<open>
  \<open>db.Create(x)\<close>: runs the hook and inserts the row; the caller's struct receives the
  identifier, so the row as inserted is returned with the table.
\<close>

definition gorm_Create ::
  "'a BaseModel_scheme list \<Rightarrow> 'a BaseModel_scheme \<Rightarrow>
     error + ('a BaseModel_scheme list \<times> 'a BaseModel_scheme)" where
  "gorm_Create rows x =
     (let x' = BeforeCreate rows x in
      if ID x' \<in> set (map ID rows) then Inl (ErrDB ''duplicate key'')
      else Inr (rows @ [x'], x'))"

text \<open>
  \<open>db.Where(P).First(&x)\<close>: the matching row of least primary key, or none
  (\<open>gorm.ErrRecordNotFound\<close>, which every repository turns into \<open>nil, nil\<close>).
\<close>

definition gorm_First ::
  "('a BaseModel_scheme \<Rightarrow> bool) \<Rightarrow> 'a BaseModel_scheme list \<Rightarrow> 'a BaseModel_scheme option" where
  "gorm_First P rows =
     (case filter P rows of
        [] \<Rightarrow> None
      | r # rs \<Rightarrow> Some (fold (\<lambda>x m. if ID x < ID m then x else m) rs r))"

text \<open>\<open>db.Where(P).Find(&xs)\<close>.\<close>

definition gorm_Find :: "('a \<Rightarrow> bool) \<Rightarrow> 'a list \<Rightarrow> 'a list" where
  "gorm_Find P rows = filter P rows"

text \<open>
  \<open>db.Save(&x)\<close>: an insert when the primary key is zero; otherwise an update of every
  column of the row with that key, and an insert when there is no such row.
\<close>

definition gorm_Save ::
  "'a BaseModel_scheme list \<Rightarrow> 'a BaseModel_scheme \<Rightarrow> error + 'a BaseModel_scheme list" where
  "gorm_Save rows x =
     (if ID x = 0 then
        (case gorm_Create rows x of Inl err \<Rightarrow> Inl err | Inr (rows', _) \<Rightarrow> Inr rows')
      else if ID x \<in> set (map ID rows) then
        Inr (map (\<lambda>r. if ID r = ID x then x else r) rows)
      else Inr (rows @ [x]))"

text \<open>
  The loop of \<open>UpdateAttendancesTx\<close>, \<open>UpdateOvertimesTx\<close> and
  \<open>UpdateReimbursementsTx\<close> (the three bodies are the same text): save each row in
  the transaction, stop at the first error.
\<close>

fun UpdateRowsTx ::
  "'a BaseModel_scheme list \<Rightarrow> 'a BaseModel_scheme list \<Rightarrow> error + 'a BaseModel_scheme list" where
  "UpdateRowsTx tx [] = Inr tx"
| "UpdateRowsTx tx (x # xs) =
     (case gorm_Save tx x of Inl err \<Rightarrow> Inl err | Inr tx' \<Rightarrow> UpdateRowsTx tx' xs)"

section \<open>The repository interfaces\<close>

text \<open>
  Each interface of package \<open>repository\<close> is a record of functions on the table it
  owns; only the methods that the services below call are listed. A read returns an
  error or its result. A write returns an error, and then the table is as before, or
  the new table (with the row as inserted, where the caller's struct receives its
  identifier). A method whose name ends in \<open>Tx\<close> is given the table as the transaction
  sees it; the others see the table through the handle of the repository, outside any
  transaction. The methods that read the clock take the instant \<open>now\<close>.
\<close>

record EmployeeProfileRepository =
  GetEmployeeProfileByUserID :: "EmployeeProfile list \<Rightarrow> uuid \<Rightarrow> error + EmployeeProfile option"
  GetAllEmployeeProfiles :: "EmployeeProfile list \<Rightarrow> error + EmployeeProfile list"

record PayslipRepository =
  CreatePayslipTx :: "Payslip list \<Rightarrow> Payslip \<Rightarrow> error + (Payslip list \<times> Payslip)"

record PayrollPeriodRepository =
  CreatePayrollPeriod :: "PayrollPeriod list \<Rightarrow> PayrollPeriod \<Rightarrow> error + (PayrollPeriod list \<times> PayrollPeriod)"
  GetPayrollPeriodByID :: "PayrollPeriod list \<Rightarrow> uuid \<Rightarrow> error + PayrollPeriod option"
  MarkPayrollPeriodAsProcessed :: "time \<Rightarrow> PayrollPeriod list \<Rightarrow> uuid \<Rightarrow> error + PayrollPeriod list"
  MarkPayrollPeriodAsProcessedTx :: "time \<Rightarrow> PayrollPeriod list \<Rightarrow> uuid \<Rightarrow> error + PayrollPeriod list"
  GetOverlappingPayrollPeriods :: "PayrollPeriod list \<Rightarrow> time \<Rightarrow> time \<Rightarrow> error + PayrollPeriod list"

record AttendanceRepository =
  CreateAttendance :: "Attendance list \<Rightarrow> Attendance \<Rightarrow> error + (Attendance list \<times> Attendance)"
  GetAttendanceByUserIDAndDate :: "Attendance list \<Rightarrow> uuid \<Rightarrow> time \<Rightarrow> error + Attendance option"
  GetAttendancesByUserIDAndPeriod :: "Attendance list \<Rightarrow> uuid \<Rightarrow> time \<Rightarrow> time \<Rightarrow> error + Attendance list"
  UpdateAttendance :: "Attendance list \<Rightarrow> Attendance \<Rightarrow> error + Attendance list"
  UpdateAttendancesTx :: "Attendance list \<Rightarrow> Attendance list \<Rightarrow> error + Attendance list"

record OvertimeRepository =
  CreateOvertime :: "Overtime list \<Rightarrow> Overtime \<Rightarrow> error + (Overtime list \<times> Overtime)"
  GetOvertimeByUserIDAndDate :: "Overtime list \<Rightarrow> uuid \<Rightarrow> time \<Rightarrow> error + Overtime list"
  GetOvertimesByUserIDAndPeriod :: "Overtime list \<Rightarrow> uuid \<Rightarrow> time \<Rightarrow> time \<Rightarrow> error + Overtime list"
  UpdateOvertimesTx :: "Overtime list \<Rightarrow> Overtime list \<Rightarrow> error + Overtime list"

record ReimbursementRepository =
  CreateReimbursement :: "Reimbursement list \<Rightarrow> Reimbursement \<Rightarrow> error + (Reimbursement list \<times> Reimbursement)"
  GetReimbursementsByUserIDAndPeriod :: "Reimbursement list \<Rightarrow> uuid \<Rightarrow> time \<Rightarrow> time \<Rightarrow> error + Reimbursement list"
  UpdateReimbursementsTx :: "Reimbursement list \<Rightarrow> Reimbursement list \<Rightarrow> error + Reimbursement list"

record AuditLogRepository =
  Create :: "time \<Rightarrow> AuditLog list \<Rightarrow> AuditLog \<Rightarrow> error + AuditLog list"

section \<open>The repositories over the database\<close>

text \<open>
  The implementations \<open>*GormRepository\<close>. A condition of a \<open>Where\<close> is the predicate it
  selects rows by; a date column compared with \<open>t.Format("2006-01-02")\<close> is compared
  by calendar day. The \<open>Tx\<close> methods return \<open>gorm.ErrInvalidDB\<close> for a nil
  transaction; the handle that \<open>Transaction\<close> passes is never nil, so they have no
  such case here.
\<close>

definition EmployeeProfileGorm_GetEmployeeProfileByUserID ::
  "EmployeeProfile list \<Rightarrow> uuid \<Rightarrow> error + EmployeeProfile option" where
  "EmployeeProfileGorm_GetEmployeeProfileByUserID rows userID =
     Inr (gorm_First (\<lambda>p. EmployeeProfile.UserID p = userID) rows)"

definition EmployeeProfileGorm_GetAllEmployeeProfiles ::
  "EmployeeProfile list \<Rightarrow> error + EmployeeProfile list" where
  "EmployeeProfileGorm_GetAllEmployeeProfiles rows = Inr (gorm_Find (\<lambda>p. True) rows)"

definition NewEmployeeProfileGormRepository :: EmployeeProfileRepository where
  "NewEmployeeProfileGormRepository =
     \<lparr>GetEmployeeProfileByUserID = EmployeeProfileGorm_GetEmployeeProfileByUserID,
      GetAllEmployeeProfiles = EmployeeProfileGorm_GetAllEmployeeProfiles\<rparr>"

definition PayslipGorm_CreatePayslipTx ::
  "Payslip list \<Rightarrow> Payslip \<Rightarrow> error + (Payslip list \<times> Payslip)" where
  "PayslipGorm_CreatePayslipTx tx payslip = gorm_Create tx payslip"

definition NewPayslipGormRepository :: PayslipRepository where
  "NewPayslipGormRepository = \<lparr>CreatePayslipTx = PayslipGorm_CreatePayslipTx\<rparr>"

definition PayrollPeriodGorm_CreatePayrollPeriod ::
  "PayrollPeriod list \<Rightarrow> PayrollPeriod \<Rightarrow> error + (PayrollPeriod list \<times> PayrollPeriod)" where
  "PayrollPeriodGorm_CreatePayrollPeriod rows period = gorm_Create rows period"

definition PayrollPeriodGorm_GetPayrollPeriodByID ::
  "PayrollPeriod list \<Rightarrow> uuid \<Rightarrow> error + PayrollPeriod option" where
  "PayrollPeriodGorm_GetPayrollPeriodByID rows periodID = Inr (gorm_First (\<lambda>p. ID p = periodID) rows)"

text \<open>
  \<open>MarkPayrollPeriodAsProcessed\<close>: the update \<open>WHERE id = ?\<close>, whatever the number of
  rows it affects. An update through the mapper also sets \<open>updated_at\<close>.
\<close>

definition PayrollPeriodGorm_MarkPayrollPeriodAsProcessed ::
  "time \<Rightarrow> PayrollPeriod list \<Rightarrow> uuid \<Rightarrow> error + PayrollPeriod list" where
  "PayrollPeriodGorm_MarkPayrollPeriodAsProcessed now rows periodID =
     Inr (map (\<lambda>p. if ID p = periodID
                    then p\<lparr>IsProcessed := True, ProcessedAt := Some now, UpdatedAt := now\<rparr>
                    else p) rows)"

text \<open>
  \<open>MarkPayrollPeriodAsProcessedTx\<close>: the update
  \<open>WHERE id = ? AND is_processed = false\<close>, and the error when no row was affected.
\<close>

definition PayrollPeriodGorm_MarkPayrollPeriodAsProcessedTx ::
  "time \<Rightarrow> PayrollPeriod list \<Rightarrow> uuid \<Rightarrow> error + PayrollPeriod list" where
  "PayrollPeriodGorm_MarkPayrollPeriodAsProcessedTx now tx periodID =
     (let hit = (\<lambda>p. ID p = periodID \<and> IsProcessed p = False);
          RowsAffected = length (filter hit tx);
          result = map (\<lambda>p. if hit p
                              then p\<lparr>IsProcessed := True, ProcessedAt := Some now, UpdatedAt := now\<rparr>
                              else p) tx
      in if RowsAffected = 0 then Inl ErrNoPayrollPeriodUpdated else Inr result)"

definition PayrollPeriodGorm_GetOverlappingPayrollPeriods ::
  "PayrollPeriod list \<Rightarrow> time \<Rightarrow> time \<Rightarrow> error + PayrollPeriod list" where
  "PayrollPeriodGorm_GetOverlappingPayrollPeriods rows startDate endDate =
     Inr (gorm_Find (\<lambda>p. StartDate p \<le> endDate \<and> EndDate p \<ge> startDate) rows)"

definition NewPayrollPeriodGormRepository :: PayrollPeriodRepository where
  "NewPayrollPeriodGormRepository =
     \<lparr>CreatePayrollPeriod = PayrollPeriodGorm_CreatePayrollPeriod,
      GetPayrollPeriodByID = PayrollPeriodGorm_GetPayrollPeriodByID,
      MarkPayrollPeriodAsProcessed = PayrollPeriodGorm_MarkPayrollPeriodAsProcessed,
      MarkPayrollPeriodAsProcessedTx = PayrollPeriodGorm_MarkPayrollPeriodAsProcessedTx,
      GetOverlappingPayrollPeriods = PayrollPeriodGorm_GetOverlappingPayrollPeriods\<rparr>"

definition AttendanceGorm_CreateAttendance ::
  "Attendance list \<Rightarrow> Attendance \<Rightarrow> error + (Attendance list \<times> Attendance)" where
  "AttendanceGorm_CreateAttendance rows attendance = gorm_Create rows attendance"

definition AttendanceGorm_GetAttendanceByUserIDAndDate ::
  "Attendance list \<Rightarrow> uuid \<Rightarrow> time \<Rightarrow> error + Attendance option" where
  "AttendanceGorm_GetAttendanceByUserIDAndDate rows userID date =
     Inr (gorm_First
       (\<lambda>a. Attendance.UserID a = userID \<and> FormatDate (Attendance.Date a) = FormatDate date) rows)"

definition AttendanceGorm_GetAttendancesByUserIDAndPeriod ::
  "Attendance list \<Rightarrow> uuid \<Rightarrow> time \<Rightarrow> time \<Rightarrow> error + Attendance list" where
  "AttendanceGorm_GetAttendancesByUserIDAndPeriod rows userID startDate endDate =
     Inr (gorm_Find
       (\<lambda>a. Attendance.UserID a = userID \<and> FormatDate (Attendance.Date a) \<ge> FormatDate startDate
            \<and> FormatDate (Attendance.Date a) \<le> FormatDate endDate) rows)"

definition AttendanceGorm_UpdateAttendance ::
  "Attendance list \<Rightarrow> Attendance \<Rightarrow> error + Attendance list" where
  "AttendanceGorm_UpdateAttendance rows attendance = gorm_Save rows attendance"

definition AttendanceGorm_UpdateAttendancesTx ::
  "Attendance list \<Rightarrow> Attendance list \<Rightarrow> error + Attendance list" where
  "AttendanceGorm_UpdateAttendancesTx tx attendances = UpdateRowsTx tx attendances"

definition NewAttendanceGormRepository :: AttendanceRepository where
  "NewAttendanceGormRepository =
     \<lparr>CreateAttendance = AttendanceGorm_CreateAttendance,
      GetAttendanceByUserIDAndDate = AttendanceGorm_GetAttendanceByUserIDAndDate,
      GetAttendancesByUserIDAndPeriod = AttendanceGorm_GetAttendancesByUserIDAndPeriod,
      UpdateAttendance = AttendanceGorm_UpdateAttendance,
      UpdateAttendancesTx = AttendanceGorm_UpdateAttendancesTx\<rparr>"

definition OvertimeGorm_CreateOvertime ::
  "Overtime list \<Rightarrow> Overtime \<Rightarrow> error + (Overtime list \<times> Overtime)" where
  "OvertimeGorm_CreateOvertime rows overtime = gorm_Create rows overtime"

definition OvertimeGorm_GetOvertimeByUserIDAndDate ::
  "Overtime list \<Rightarrow> uuid \<Rightarrow> time \<Rightarrow> error + Overtime list" where
  "OvertimeGorm_GetOvertimeByUserIDAndDate rows userID date =
     Inr (gorm_Find
       (\<lambda>ot. Overtime.UserID ot = userID \<and> FormatDate (Overtime.Date ot) = FormatDate date) rows)"

definition OvertimeGorm_GetOvertimesByUserIDAndPeriod ::
  "Overtime list \<Rightarrow> uuid \<Rightarrow> time \<Rightarrow> time \<Rightarrow> error + Overtime list" where
  "OvertimeGorm_GetOvertimesByUserIDAndPeriod rows userID startDate endDate =
     Inr (gorm_Find
       (\<lambda>ot. Overtime.UserID ot = userID \<and> FormatDate (Overtime.Date ot) \<ge> FormatDate startDate
             \<and> FormatDate (Overtime.Date ot) \<le> FormatDate endDate) rows)"

definition OvertimeGorm_UpdateOvertimesTx ::
  "Overtime list \<Rightarrow> Overtime list \<Rightarrow> error + Overtime list" where
  "OvertimeGorm_UpdateOvertimesTx tx overtimes = UpdateRowsTx tx overtimes"

definition NewOvertimeGormRepository :: OvertimeRepository where
  "NewOvertimeGormRepository =
     \<lparr>CreateOvertime = OvertimeGorm_CreateOvertime,
      GetOvertimeByUserIDAndDate = OvertimeGorm_GetOvertimeByUserIDAndDate,
      GetOvertimesByUserIDAndPeriod = OvertimeGorm_GetOvertimesByUserIDAndPeriod,
      UpdateOvertimesTx = OvertimeGorm_UpdateOvertimesTx\<rparr>"

definition ReimbursementGorm_CreateReimbursement ::
  "Reimbursement list \<Rightarrow> Reimbursement \<Rightarrow> error + (Reimbursement list \<times> Reimbursement)" where
  "ReimbursementGorm_CreateReimbursement rows reimbursement = gorm_Create rows reimbursement"

definition ReimbursementGorm_GetReimbursementsByUserIDAndPeriod ::
  "Reimbursement list \<Rightarrow> uuid \<Rightarrow> time \<Rightarrow> time \<Rightarrow> error + Reimbursement list" where
  "ReimbursementGorm_GetReimbursementsByUserIDAndPeriod rows userID startDate endDate =
     Inr (gorm_Find
       (\<lambda>r. Reimbursement.UserID r = userID \<and> CreatedAt r \<ge> startDate \<and> CreatedAt r \<le> endDate) rows)"

definition ReimbursementGorm_UpdateReimbursementsTx ::
  "Reimbursement list \<Rightarrow> Reimbursement list \<Rightarrow> error + Reimbursement list" where
  "ReimbursementGorm_UpdateReimbursementsTx tx reimbursements = UpdateRowsTx tx reimbursements"

definition NewReimbursementGormRepository :: ReimbursementRepository where
  "NewReimbursementGormRepository =
     \<lparr>CreateReimbursement = ReimbursementGorm_CreateReimbursement,
      GetReimbursementsByUserIDAndPeriod = ReimbursementGorm_GetReimbursementsByUserIDAndPeriod,
      UpdateReimbursementsTx = ReimbursementGorm_UpdateReimbursementsTx\<rparr>"

definition AuditLogGorm_Create :: "time \<Rightarrow> AuditLog list \<Rightarrow> AuditLog \<Rightarrow> error + AuditLog list" where
  "AuditLogGorm_Create now rows audit =
     (let audit = (if IsZero (Timestamp audit) then audit\<lparr>Timestamp := now\<rparr> else audit) in
      case gorm_Create rows audit of Inl err \<Rightarrow> Inl err | Inr (rows', _) \<Rightarrow> Inr rows')"

definition NewAuditLogGormRepository :: AuditLogRepository where
  "NewAuditLogGormRepository = \<lparr>Create = AuditLogGorm_Create\<rparr>"

section \<open>The audit helper\<close>

text \<open>
  \<open>CreateAuditLog\<close> encodes the two snapshots, returning the error of the first
  encoding that fails, then builds the entry and hands it to the repository. The struct
  literal reads \<open>*userID\<close> for \<open>CreatedBy\<close> and \<open>UpdatedBy\<close>: with a nil \<open>userID\<close> that
  is a panic (\<open>Inl\<close>). Otherwise the helper returns (\<open>Inr\<close>) the error of the encoding
  or of the repository, if any, and the table of audit entries.
\<close>

definition CreateAuditLog ::
  "AuditLogRepository \<Rightarrow> time \<Rightarrow> AuditLog list \<Rightarrow> uuid option \<Rightarrow> string \<Rightarrow> string \<Rightarrow>
     uuid option \<Rightarrow> any \<Rightarrow> any \<Rightarrow> string \<Rightarrow> string \<Rightarrow> error + (error option \<times> AuditLog list)" where
  "CreateAuditLog repo now rows userID action entityName entityID oldValue newValue ipAddress requestID =
     (case json_Marshal oldValue of
        Inl err \<Rightarrow> Inr (Some err, rows)
      | Inr oldJSON \<Rightarrow>
     (case json_Marshal newValue of
        Inl err \<Rightarrow> Inr (Some err, rows)
      | Inr newJSON \<Rightarrow>
     (case userID of
        None \<Rightarrow> Inl PanicNilDereference
      | Some deref \<Rightarrow>
          (let audit =
             \<lparr>ID = 0, CreatedAt = now, UpdatedAt = now, CreatedBy = deref, UpdatedBy = deref,
              IPAddress = ipAddress,
              AuditLog.UserID = userID, Action = action, EntityName = entityName,
              EntityID = entityID, OldValue = oldJSON, NewValue = newJSON,
              RequestID = requestID, Timestamp = now\<rparr>
           in case Create repo now rows audit of
                Inl err \<Rightarrow> Inr (Some err, rows)
              | Inr rows' \<Rightarrow> Inr (None, rows')))))"

section \<open>The payroll service\<close>

definition RegularWorkingHoursPerDay :: float64 where
  "RegularWorkingHoursPerDay = 8"

definition OvertimeMultiplier :: float64 where
  "OvertimeMultiplier = 2.0"

record PayrollService =
  payslipRepo :: PayslipRepository
  payrollPeriodRepo :: PayrollPeriodRepository
  employeeProfileRepo :: EmployeeProfileRepository
  attendanceRepo :: AttendanceRepository
  overtimeRepo :: OvertimeRepository
  reimbursementRepo :: ReimbursementRepository
  auditRepo :: AuditLogRepository

text \<open>
  The first loop of \<open>CalculatePayslip\<close>: the worked hours of the attendance records
  whose date is in the period, each capped at eight hours and counted as nothing
  below eight.
\<close>

fun totalWorkedHours_loop :: "PayrollPeriod \<Rightarrow> Attendance list \<Rightarrow> float64 \<Rightarrow> float64" where
  "totalWorkedHours_loop period [] totalWorkedHours = totalWorkedHours"
| "totalWorkedHours_loop period (att # attendances) totalWorkedHours =
     (if (After (Attendance.Date att) (StartDate period) \<or> Equal (Attendance.Date att) (StartDate period)) \<and>
         (Before (Attendance.Date att) (EndDate period) \<or> Equal (Attendance.Date att) (EndDate period))
      then
        (let workedHours = Duration_Hours (Sub (CheckOutTime att) (CheckInTime att));
             workedHours =
               (if workedHours > RegularWorkingHoursPerDay then RegularWorkingHoursPerDay
                else if workedHours < RegularWorkingHoursPerDay then 0
                else workedHours)
         in totalWorkedHours_loop period attendances (totalWorkedHours + workedHours))
      else totalWorkedHours_loop period attendances totalWorkedHours)"

text \<open>
  The second loop: from the start date in steps of 24 hours while the instant is not
  after the end date, eight hours for each instant that is not on a Saturday or Sunday.
\<close>

function totalPossibleWorkingHours_loop :: "time \<Rightarrow> time \<Rightarrow> float64 \<Rightarrow> float64" where
  "totalPossibleWorkingHours_loop d endDate totalPossibleWorkingHours =
     (if \<not> After d endDate then
        totalPossibleWorkingHours_loop (Add d (24 * Hour)) endDate
          (if Weekday d \<noteq> Saturday \<and> Weekday d \<noteq> Sunday
           then totalPossibleWorkingHours + RegularWorkingHoursPerDay
           else totalPossibleWorkingHours)
      else totalPossibleWorkingHours)"
  by pat_completeness auto
termination
  by (relation "measure (\<lambda>(d, endDate, total). nat (endDate - d + 1))")
     (auto simp: After_def Add_def Hour_def)

declare totalPossibleWorkingHours_loop.simps [simp del]

definition CalculatePayslip ::
  "PayrollService \<Rightarrow> time \<Rightarrow> DB \<Rightarrow> uuid \<Rightarrow> PayrollPeriod \<Rightarrow> uuid \<Rightarrow> string \<Rightarrow>
     error + (Payslip \<times> Attendance list \<times> Overtime list \<times> Reimbursement list)" where
  "CalculatePayslip s now db userID period processedBy ipAddress =
     (case GetEmployeeProfileByUserID (employeeProfileRepo s) (tbl_employee_profiles db) userID of
        Inl err \<Rightarrow> Inl err
      | Inr None \<Rightarrow> Inl ErrEmployeeProfileNotFound
      | Inr (Some empProfile) \<Rightarrow>
     (let baseSalary = Salary empProfile in
      case GetAttendancesByUserIDAndPeriod (attendanceRepo s) (tbl_attendances db) userID
             (StartDate period) (EndDate period) of
        Inl err \<Rightarrow> Inl err
      | Inr attendances \<Rightarrow>
     (let totalWorkedHours = totalWorkedHours_loop period attendances 0;
          totalPossibleWorkingHours =
            totalPossibleWorkingHours_loop (StartDate period) (EndDate period) 0;
          hourlyRate =
            (if totalPossibleWorkingHours > 0 then baseSalary / totalPossibleWorkingHours else 0);
          proratedSalary =
            (if totalPossibleWorkingHours > 0 then hourlyRate * totalWorkedHours else 0)
      in
      case GetOvertimesByUserIDAndPeriod (overtimeRepo s) (tbl_overtimes db) userID
             (StartDate period) (EndDate period) of
        Inl err \<Rightarrow> Inl err
      | Inr overtimes \<Rightarrow>
     (let totalOvertimeHours = fold (\<lambda>ot total. total + Overtime.Hours ot) overtimes 0;
          overtimePay = totalOvertimeHours * hourlyRate * OvertimeMultiplier
      in
      case GetReimbursementsByUserIDAndPeriod (reimbursementRepo s) (tbl_reimbursements db) userID
             (StartDate period) (EndDate period) of
        Inl err \<Rightarrow> Inl err
      | Inr reimbursements \<Rightarrow>
     (let totalReimbursement = fold (\<lambda>reimb total. total + Amount reimb) reimbursements 0;
          totalTakeHomePay = proratedSalary + overtimePay + totalReimbursement;
          payslip =
            \<lparr>ID = 0, CreatedAt = now, UpdatedAt = now, CreatedBy = processedBy,
             UpdatedBy = processedBy, IPAddress = ipAddress,
             Payslip.UserID = userID, Payslip.PayrollPeriodID = ID period,
             BaseSalary = baseSalary, ProratedSalary = proratedSalary,
             OvertimePay = overtimePay, TotalReimbursement = totalReimbursement,
             TotalTakeHomePay = totalTakeHomePay\<rparr>;
          attendances = map (\<lambda>a. a\<lparr>Attendance.PayrollPeriodID := Some (ID period),
                                   UpdatedAt := now, UpdatedBy := processedBy,
                                   IPAddress := ipAddress\<rparr>) attendances;
          overtimes = map (\<lambda>ot. ot\<lparr>Overtime.PayrollPeriodID := Some (ID period),
                                   UpdatedAt := now, UpdatedBy := processedBy,
                                   IPAddress := ipAddress\<rparr>) overtimes;
          reimbursements = map (\<lambda>r. r\<lparr>Reimbursement.PayrollPeriodID := Some (ID period),
                                   UpdatedAt := now, UpdatedBy := processedBy,
                                   IPAddress := ipAddress\<rparr>) reimbursements
      in Inr (payslip, attendances, overtimes, reimbursements))))))"

text \<open>
  \<open>db.Transaction(fc)\<close>. The closure works on two views of the database: \<open>db\<close>, as the
  repositories see it through their own handle, where a write is committed at once,
  and \<open>tx\<close>, the view of the transaction, which starts as the database and takes the
  writes made through the transaction handle. When the closure returns an error (or
  panics) the transaction is rolled back: its view is dropped. Otherwise it is
  committed: its tables become the database's. The transaction never writes the table
  of audit entries, whose rows were written through the other handle and stay.
\<close>

definition Commit :: "DB \<Rightarrow> DB \<Rightarrow> DB" where
  "Commit db tx = tx\<lparr>tbl_audit_logs := tbl_audit_logs db\<rparr>"

definition Transaction :: "(DB \<Rightarrow> DB \<Rightarrow> error option \<times> DB \<times> DB) \<Rightarrow> DB \<Rightarrow> error option \<times> DB" where
  "Transaction fc db =
     (case fc db db of
        (Some err, db', tx') \<Rightarrow> (Some err, db')
      | (None, db', tx') \<Rightarrow> (None, Commit db' tx'))"

text \<open>The loop of \<open>RunPayroll\<close> over the employees.\<close>

fun RunPayroll_loop ::
  "PayrollService \<Rightarrow> time \<Rightarrow> PayrollPeriod \<Rightarrow> uuid \<Rightarrow> string \<Rightarrow> string \<Rightarrow>
     EmployeeProfile list \<Rightarrow> DB \<Rightarrow> DB \<Rightarrow> error option \<times> DB \<times> DB" where
  "RunPayroll_loop s now period processedBy ipAddress requestID [] db tx = (None, db, tx)"
| "RunPayroll_loop s now period processedBy ipAddress requestID (emp # employees) db tx =
     (case CalculatePayslip s now db (EmployeeProfile.UserID emp) period processedBy ipAddress of
        Inl err \<Rightarrow> (Some (ErrCalculatePayslip (EmployeeProfile.UserID emp) err), db, tx)
      | Inr (payslip, attendances, overtimes, reimbursements) \<Rightarrow>
     (case CreatePayslipTx (payslipRepo s) (tbl_payslips tx) payslip of
        Inl err \<Rightarrow> (Some (ErrSavePayslip (EmployeeProfile.UserID emp) err), db, tx)
      | Inr (payslips', payslip) \<Rightarrow>
     (case UpdateAttendancesTx (attendanceRepo s) (tbl_attendances tx) attendances of
        Inl err \<Rightarrow> (Some (ErrUpdateAttendances (EmployeeProfile.UserID emp) err), db,
                    tx\<lparr>tbl_payslips := payslips'\<rparr>)
      | Inr attendances' \<Rightarrow>
     (case UpdateOvertimesTx (overtimeRepo s) (tbl_overtimes tx) overtimes of
        Inl err \<Rightarrow> (Some (ErrUpdateOvertimes (EmployeeProfile.UserID emp) err), db,
                    tx\<lparr>tbl_payslips := payslips', tbl_attendances := attendances'\<rparr>)
      | Inr overtimes' \<Rightarrow>
     (case UpdateReimbursementsTx (reimbursementRepo s) (tbl_reimbursements tx) reimbursements of
        Inl err \<Rightarrow> (Some (ErrUpdateReimbursements (EmployeeProfile.UserID emp) err), db,
                    tx\<lparr>tbl_payslips := payslips', tbl_attendances := attendances',
                       tbl_overtimes := overtimes'\<rparr>)
      | Inr reimbursements' \<Rightarrow>
     (let tx = tx\<lparr>tbl_payslips := payslips', tbl_attendances := attendances',
                  tbl_overtimes := overtimes', tbl_reimbursements := reimbursements'\<rparr> in
      case CreateAuditLog (auditRepo s) now (tbl_audit_logs db) (Some processedBy)
             ''CREATE'' ''Payslip'' (Some (ID payslip)) AnyNil (AnyPayslip payslip)
             ipAddress requestID of
        Inl panic \<Rightarrow> (Some panic, db, tx)
      | Inr (_, audit_logs') \<Rightarrow>
          RunPayroll_loop s now period processedBy ipAddress requestID employees
            (db\<lparr>tbl_audit_logs := audit_logs'\<rparr>) tx))))))"

declare RunPayroll_loop.simps(2) [simp del]

text \<open>The closure that \<open>RunPayroll\<close> passes to \<open>Transaction\<close>.\<close>

definition RunPayroll_fc ::
  "PayrollService \<Rightarrow> time \<Rightarrow> uuid \<Rightarrow> uuid \<Rightarrow> string \<Rightarrow> string \<Rightarrow> DB \<Rightarrow> DB \<Rightarrow>
     error option \<times> DB \<times> DB" where
  "RunPayroll_fc s now periodID processedBy ipAddress requestID db tx =
     (case GetPayrollPeriodByID (payrollPeriodRepo s) (tbl_payroll_periods db) periodID of
        Inl err \<Rightarrow> (Some err, db, tx)
      | Inr None \<Rightarrow> (Some ErrPayrollPeriodNotFound, db, tx)
      | Inr (Some period) \<Rightarrow>
     (if IsProcessed period then (Some ErrPayrollAlreadyProcessed, db, tx)
      else
     (case GetAllEmployeeProfiles (employeeProfileRepo s) (tbl_employee_profiles db) of
        Inl err \<Rightarrow> (Some err, db, tx)
      | Inr employees \<Rightarrow>
     (case RunPayroll_loop s now period processedBy ipAddress requestID employees db tx of
        (Some err, db, tx) \<Rightarrow> (Some err, db, tx)
      | (None, db, tx) \<Rightarrow>
     (case MarkPayrollPeriodAsProcessedTx (payrollPeriodRepo s) now (tbl_payroll_periods tx) periodID of
        Inl err \<Rightarrow> (Some (ErrMarkProcessed err), db, tx)
      | Inr payroll_periods' \<Rightarrow>
     (let tx = tx\<lparr>tbl_payroll_periods := payroll_periods'\<rparr> in
      case CreateAuditLog (auditRepo s) now (tbl_audit_logs db) (Some processedBy)
             ''UPDATE'' ''PayrollPeriod'' (Some (ID period)) AnyNil (AnyPayrollPeriod period)
             ipAddress requestID of
        Inl panic \<Rightarrow> (Some panic, db, tx)
      | Inr (_, audit_logs') \<Rightarrow> (None, db\<lparr>tbl_audit_logs := audit_logs'\<rparr>, tx)))))))"

definition RunPayroll ::
  "PayrollService \<Rightarrow> time \<Rightarrow> DB \<Rightarrow> uuid \<Rightarrow> uuid \<Rightarrow> string \<Rightarrow> string \<Rightarrow> error option \<times> DB" where
  "RunPayroll s now db periodID processedBy ipAddress requestID =
     Transaction (RunPayroll_fc s now periodID processedBy ipAddress requestID) db"

section \<open>The attendance service\<close>

record AttendanceService =
  attendanceRepo :: AttendanceRepository
  auditRepo :: AuditLogRepository

definition SubmitAttendance ::
  "AttendanceService \<Rightarrow> time \<Rightarrow> DB \<Rightarrow> uuid \<Rightarrow> time \<Rightarrow> time \<Rightarrow> string \<Rightarrow> string \<Rightarrow>
     (error + Attendance) \<times> DB" where
  "SubmitAttendance s now db userID checkInTime checkOutTime ipAddress requestID =
     (if Weekday checkInTime = Saturday \<or> Weekday checkInTime = Sunday
      then (Inl ErrWeekendAttendance, db)
      else
     (case GetAttendanceByUserIDAndDate (AttendanceService.attendanceRepo s) (tbl_attendances db)
             userID checkInTime of
        Inl err \<Rightarrow> (Inl err, db)
      | Inr (Some existingAttendance) \<Rightarrow>
          (let oldValue = existingAttendance;
               existingAttendance = existingAttendance
                 \<lparr>CheckInTime := checkInTime, CheckOutTime := checkOutTime,
                  UpdatedAt := now, UpdatedBy := userID, IPAddress := ipAddress\<rparr>
           in
           case UpdateAttendance (AttendanceService.attendanceRepo s) (tbl_attendances db)
                  existingAttendance of
             Inl err \<Rightarrow> (Inl err, db)
           | Inr attendances' \<Rightarrow>
               (let db = db\<lparr>tbl_attendances := attendances'\<rparr> in
                case CreateAuditLog (AttendanceService.auditRepo s) now (tbl_audit_logs db)
                       (Some userID) ''UPDATE'' ''Attendance'' (Some (ID existingAttendance))
                       (AnyAttendance oldValue) (AnyAttendance existingAttendance)
                       ipAddress requestID of
                  Inl panic \<Rightarrow> (Inl panic, db)
                | Inr (_, audit_logs') \<Rightarrow>
                    (Inr existingAttendance, db\<lparr>tbl_audit_logs := audit_logs'\<rparr>)))
      | Inr None \<Rightarrow>
          (let newAttendance =
                 \<lparr>ID = 0, CreatedAt = now, UpdatedAt = now, CreatedBy = userID,
                  UpdatedBy = userID, IPAddress = ipAddress,
                  Attendance.UserID = userID, Attendance.Date = checkInTime,
                  CheckInTime = checkInTime, CheckOutTime = checkOutTime,
                  Attendance.PayrollPeriodID = None\<rparr>
           in
           case CreateAttendance (AttendanceService.attendanceRepo s) (tbl_attendances db)
                  newAttendance of
             Inl err \<Rightarrow> (Inl err, db)
           | Inr (attendances', newAttendance) \<Rightarrow>
               (let db = db\<lparr>tbl_attendances := attendances'\<rparr> in
                case CreateAuditLog (AttendanceService.auditRepo s) now (tbl_audit_logs db)
                       (Some userID) ''CREATE'' ''Attendance'' (Some (ID newAttendance))
                       AnyNil (AnyAttendance newAttendance) ipAddress requestID of
                  Inl panic \<Rightarrow> (Inl panic, db)
                | Inr (_, audit_logs') \<Rightarrow>
                    (Inr newAttendance, db\<lparr>tbl_audit_logs := audit_logs'\<rparr>)))))"

section \<open>The overtime service\<close>

definition MaxOvertimeHoursPerDay :: float64 where
  "MaxOvertimeHoursPerDay = 3.0"

record OvertimeService =
  overtimeRepo :: OvertimeRepository
  auditRepo :: AuditLogRepository

definition SubmitOvertime ::
  "OvertimeService \<Rightarrow> time \<Rightarrow> DB \<Rightarrow> uuid \<Rightarrow> time \<Rightarrow> float64 \<Rightarrow> string \<Rightarrow> string \<Rightarrow>
     (error + Overtime) \<times> DB" where
  "SubmitOvertime s now db userID date hours ipAddress requestID =
     (case GetOvertimeByUserIDAndDate (OvertimeService.overtimeRepo s) (tbl_overtimes db)
             userID date of
        Inl err \<Rightarrow> (Inl err, db)
      | Inr existingOvertimes \<Rightarrow>
     (let totalHoursToday = fold (\<lambda>ot total. total + Overtime.Hours ot) existingOvertimes 0 in
      if totalHoursToday + hours > MaxOvertimeHoursPerDay
      then (Inl (ErrOvertimeCapExceeded (FormatDate date) MaxOvertimeHoursPerDay), db)
      else
     (let newOvertime =
            \<lparr>ID = 0, CreatedAt = now, UpdatedAt = now, CreatedBy = userID,
             UpdatedBy = userID, IPAddress = ipAddress,
             Overtime.UserID = userID, Overtime.Date = date, Hours = hours,
             Overtime.PayrollPeriodID = None\<rparr>
      in
      case CreateOvertime (OvertimeService.overtimeRepo s) (tbl_overtimes db) newOvertime of
        Inl err \<Rightarrow> (Inl err, db)
      | Inr (overtimes', newOvertime) \<Rightarrow>
          (let db = db\<lparr>tbl_overtimes := overtimes'\<rparr> in
           case CreateAuditLog (OvertimeService.auditRepo s) now (tbl_audit_logs db)
                  (Some userID) ''CREATE'' ''Overtime'' (Some (ID newOvertime))
                  AnyNil (AnyOvertime newOvertime) ipAddress requestID of
             Inl panic \<Rightarrow> (Inl panic, db)
           | Inr (_, audit_logs') \<Rightarrow>
               (Inr newOvertime, db\<lparr>tbl_audit_logs := audit_logs'\<rparr>)))))"

section \<open>The reimbursement service\<close>

record ReimbursementService =
  reimbursementRepo :: ReimbursementRepository
  auditLogRepo :: AuditLogRepository

definition SubmitReimbursement ::
  "ReimbursementService \<Rightarrow> time \<Rightarrow> DB \<Rightarrow> uuid \<Rightarrow> float64 \<Rightarrow> string \<Rightarrow> string \<Rightarrow> string \<Rightarrow>
     (error + Reimbursement) \<times> DB" where
  "SubmitReimbursement s now db userID amount description ipAddress requestID =
     (let newReimbursement =
            \<lparr>ID = 0, CreatedAt = now, UpdatedAt = now, CreatedBy = userID,
             UpdatedBy = userID, IPAddress = ipAddress,
             Reimbursement.UserID = userID, Amount = amount, Description = description,
             Reimbursement.PayrollPeriodID = None\<rparr>
      in
      case CreateReimbursement (ReimbursementService.reimbursementRepo s) (tbl_reimbursements db)
             newReimbursement of
        Inl err \<Rightarrow> (Inl err, db)
      | Inr (reimbursements', newReimbursement) \<Rightarrow>
          (let db = db\<lparr>tbl_reimbursements := reimbursements'\<rparr> in
           case CreateAuditLog (auditLogRepo s) now (tbl_audit_logs db)
                  (Some userID) ''CREATE'' ''Reimbursement'' (Some (ID newReimbursement))
                  AnyNil (AnyReimbursement newReimbursement) ipAddress requestID of
             Inl panic \<Rightarrow> (Inl panic, db)
           | Inr (_, audit_logs') \<Rightarrow>
               (Inr newReimbursement, db\<lparr>tbl_audit_logs := audit_logs'\<rparr>)))"

section \<open>The payroll period service\<close>

record PayrollPeriodService =
  payrollPeriodRepo :: PayrollPeriodRepository
  auditRepo :: AuditLogRepository

definition PayrollPeriodService_CreatePayrollPeriod ::
  "PayrollPeriodService \<Rightarrow> time \<Rightarrow> DB \<Rightarrow> time \<Rightarrow> time \<Rightarrow> uuid \<Rightarrow> string \<Rightarrow> string \<Rightarrow>
     (error + PayrollPeriod) \<times> DB" where
  "PayrollPeriodService_CreatePayrollPeriod s now db startDate endDate createdBy ipAddress requestID =
     (if \<not> After endDate startDate then (Inl ErrEndDateNotAfterStartDate, db)
      else
     (case GetOverlappingPayrollPeriods (PayrollPeriodService.payrollPeriodRepo s)
             (tbl_payroll_periods db) startDate endDate of
        Inl err \<Rightarrow> (Inl err, db)
      | Inr overlappingPeriods \<Rightarrow>
     (if length overlappingPeriods > 0 then (Inl ErrOverlappingPayrollPeriod, db)
      else
     (let period =
            \<lparr>ID = 0, CreatedAt = now, UpdatedAt = now, CreatedBy = createdBy,
             UpdatedBy = createdBy, IPAddress = ipAddress,
             StartDate = startDate, EndDate = endDate, IsProcessed = False,
             ProcessedAt = None\<rparr>
      in
      case CreatePayrollPeriod (PayrollPeriodService.payrollPeriodRepo s)
             (tbl_payroll_periods db) period of
        Inl err \<Rightarrow> (Inl err, db)
      | Inr (payroll_periods', period) \<Rightarrow>
          (let db = db\<lparr>tbl_payroll_periods := payroll_periods'\<rparr> in
           case CreateAuditLog (PayrollPeriodService.auditRepo s) now (tbl_audit_logs db)
                  (Some createdBy) ''CREATE'' ''PayrollPeriod'' (Some (ID period))
                  AnyNil (AnyPayrollPeriod period) ipAddress requestID of
             Inl panic \<Rightarrow> (Inl panic, db)
           | Inr (_, audit_logs') \<Rightarrow>
               (Inr period, db\<lparr>tbl_audit_logs := audit_logs'\<rparr>))))))"

text \<open>
  \<open>MarkPayrollPeriodAsProcessed\<close> draws the request identifier of its audit entry with
  \<open>uuid.New\<close>; the string drawn is the argument \<open>requestID\<close>. The snapshot of both
  values of the entry is the period as it was read, before the update.
\<close>

definition PayrollPeriodService_MarkPayrollPeriodAsProcessed ::
  "PayrollPeriodService \<Rightarrow> time \<Rightarrow> string \<Rightarrow> DB \<Rightarrow> uuid \<Rightarrow> uuid \<Rightarrow> string \<Rightarrow>
     error option \<times> DB" where
  "PayrollPeriodService_MarkPayrollPeriodAsProcessed s now requestID db periodID updatedBy ipAddress =
     (case GetPayrollPeriodByID (PayrollPeriodService.payrollPeriodRepo s)
             (tbl_payroll_periods db) periodID of
        Inl err \<Rightarrow> (Some err, db)
      | Inr None \<Rightarrow> (Some ErrPayrollPeriodNotFound, db)
      | Inr (Some period) \<Rightarrow>
     (case MarkPayrollPeriodAsProcessed (PayrollPeriodService.payrollPeriodRepo s) now
             (tbl_payroll_periods db) periodID of
        Inl err \<Rightarrow> (Some err, db)
      | Inr payroll_periods' \<Rightarrow>
          (let db = db\<lparr>tbl_payroll_periods := payroll_periods'\<rparr> in
           case CreateAuditLog (PayrollPeriodService.auditRepo s) now (tbl_audit_logs db)
                  (Some updatedBy) ''UPDATE'' ''PayrollPeriod'' (Some (ID period))
                  (AnyPayrollPeriod period) (AnyPayrollPeriod period) ipAddress requestID of
             Inl panic \<Rightarrow> (Some panic, db)
           | Inr (_, audit_logs') \<Rightarrow> (None, db\<lparr>tbl_audit_logs := audit_logs'\<rparr>))))"

section \<open>The services over the database\<close>

definition NewPayrollService :: PayrollService where
  "NewPayrollService =
     \<lparr>payslipRepo = NewPayslipGormRepository,
      PayrollService.payrollPeriodRepo = NewPayrollPeriodGormRepository,
      employeeProfileRepo = NewEmployeeProfileGormRepository,
      PayrollService.attendanceRepo = NewAttendanceGormRepository,
      PayrollService.overtimeRepo = NewOvertimeGormRepository,
      PayrollService.reimbursementRepo = NewReimbursementGormRepository,
      PayrollService.auditRepo = NewAuditLogGormRepository\<rparr>"

definition NewAttendanceService :: AttendanceService where
  "NewAttendanceService =
     \<lparr>attendanceRepo = NewAttendanceGormRepository, auditRepo = NewAuditLogGormRepository\<rparr>"

definition NewOvertimeService :: OvertimeService where
  "NewOvertimeService =
     \<lparr>overtimeRepo = NewOvertimeGormRepository, auditRepo = NewAuditLogGormRepository\<rparr>"

definition NewReimbursementService :: ReimbursementService where
  "NewReimbursementService =
     \<lparr>reimbursementRepo = NewReimbursementGormRepository, auditLogRepo = NewAuditLogGormRepository\<rparr>"

definition NewPayrollPeriodService :: PayrollPeriodService where
  "NewPayrollPeriodService =
     \<lparr>payrollPeriodRepo = NewPayrollPeriodGormRepository, auditRepo = NewAuditLogGormRepository\<rparr>"

section \<open>Properties used in the statements\<close>

text \<open>
  The invariant of the stored payroll periods, as the data model states it: every period
  starts before it ends, and no two periods (closed ranges of instants) overlap.
\<close>

definition disjoint_periods :: "PayrollPeriod \<Rightarrow> PayrollPeriod \<Rightarrow> bool" where
  "disjoint_periods p q = (EndDate p < StartDate q \<or> EndDate q < StartDate p)"

fun non_overlapping :: "PayrollPeriod list \<Rightarrow> bool" where
  "non_overlapping [] = True"
| "non_overlapping (p # ps) = ((\<forall>q \<in> set ps. disjoint_periods p q) \<and> non_overlapping ps)"

definition stored_periods_ok :: "PayrollPeriod list \<Rightarrow> bool" where
  "stored_periods_ok rows = ((\<forall>p \<in> set rows. StartDate p < EndDate p) \<and> non_overlapping rows)"

text \<open>
  The audit entries of \<open>db'\<close> are those of \<open>db\<close> followed by entries whose actor is the
  given user.
\<close>

definition audit_appended_by :: "uuid \<Rightarrow> DB \<Rightarrow> DB \<Rightarrow> bool" where
  "audit_appended_by actor db db' =
     (\<exists>new. tbl_audit_logs db' = tbl_audit_logs db @ new
          \<and> list_all (\<lambda>a. AuditLog.UserID a = Some actor) new)"


section \<open>Scenarios\<close>

text \<open>
  Concrete databases, periods, records and mocked repositories on which the theorems
  below are instantiated. Day 20332 is Monday 2025-09-01, day 20343 is Friday 2025-09-12,
  day 20316 is Saturday 2025-08-16.
\<close>

definition db_empty :: DB where
  "db_empty = \<lparr>tbl_payroll_periods = [], tbl_employee_profiles = [], tbl_attendances = [],
     tbl_overtimes = [], tbl_reimbursements = [], tbl_payslips = [], tbl_audit_logs = []\<rparr>"

definition period_sep :: PayrollPeriod where
  "period_sep = \<lparr>ID = 1, CreatedAt = 0, UpdatedAt = 0, CreatedBy = 9, UpdatedBy = 9,
     IPAddress = ''10.0.0.1'', StartDate = 20332 * (24 * Hour), EndDate = 20343 * (24 * Hour),
     IsProcessed = False, ProcessedAt = None\<rparr>"

definition attendance_on :: "uuid \<Rightarrow> uuid \<Rightarrow> int \<Rightarrow> int \<Rightarrow> Attendance" where
  "attendance_on i u day h = \<lparr>ID = i, CreatedAt = 0, UpdatedAt = 0, CreatedBy = u, UpdatedBy = u,
     IPAddress = ''10.0.0.2'', Attendance.UserID = u, Attendance.Date = day * (24 * Hour),
     CheckInTime = (day * 24 + 9) * Hour, CheckOutTime = (day * 24 + 9 + h) * Hour,
     Attendance.PayrollPeriodID = None\<rparr>"

definition overtime_on :: "uuid \<Rightarrow> uuid \<Rightarrow> int \<Rightarrow> float64 \<Rightarrow> Overtime" where
  "overtime_on i u day h = \<lparr>ID = i, CreatedAt = 0, UpdatedAt = 0, CreatedBy = u, UpdatedBy = u,
     IPAddress = ''10.0.0.2'', Overtime.UserID = u, Overtime.Date = day * (24 * Hour),
     Hours = h, Overtime.PayrollPeriodID = None\<rparr>"


definition db_period :: DB where
  "db_period = db_empty\<lparr>tbl_payroll_periods := [period_sep]\<rparr>"

text \<open>
  A repository of employee profiles as the tests mock it: the lookup of one user
  returns \<open>nil, nil\<close> (no profile), every other call is the one over the database.
\<close>

definition EmployeeProfileMock_missing :: "uuid \<Rightarrow> EmployeeProfileRepository" where
  "EmployeeProfileMock_missing u =
     \<lparr>GetEmployeeProfileByUserID =
        (\<lambda>rows userID. if userID = u then Inr None
                        else EmployeeProfileGorm_GetEmployeeProfileByUserID rows userID),
      GetAllEmployeeProfiles = EmployeeProfileGorm_GetAllEmployeeProfiles\<rparr>"

definition profile_of :: "uuid \<Rightarrow> uuid \<Rightarrow> float64 \<Rightarrow> EmployeeProfile" where
  "profile_of i u salary = \<lparr>ID = i, CreatedAt = 0, UpdatedAt = 0, CreatedBy = 9, UpdatedBy = 9,
     IPAddress = ''10.0.0.1'', EmployeeProfile.UserID = u, Salary = salary\<rparr>"

definition db_three :: DB where
  "db_three = db_empty\<lparr>tbl_payroll_periods := [period_sep],
     tbl_employee_profiles := [profile_of 1 1 5000000, profile_of 2 2 4000000, profile_of 3 3 3000000]\<rparr>"

definition reimbursement_of :: "uuid \<Rightarrow> uuid \<Rightarrow> float64 \<Rightarrow> time \<Rightarrow> Reimbursement" where
  "reimbursement_of i u amount created = \<lparr>ID = i, CreatedAt = created, UpdatedAt = created,
     CreatedBy = u, UpdatedBy = u, IPAddress = ''10.0.0.2'', Reimbursement.UserID = u,
     Amount = amount, Description = ''taxi'', Reimbursement.PayrollPeriodID = None\<rparr>"

definition db_sep :: DB where
  "db_sep = db_empty\<lparr>tbl_payroll_periods := [period_sep],
     tbl_employee_profiles := [profile_of 1 1 5000000, profile_of 2 2 4000000],
     tbl_attendances :=
       [attendance_on 1 1 20332 8, attendance_on 2 1 20333 8, attendance_on 3 1 20334 8,
        attendance_on 4 1 20335 8, attendance_on 5 1 20336 8, attendance_on 6 1 20339 8,
        attendance_on 7 1 20340 8, attendance_on 8 1 20341 8, attendance_on 9 1 20342 8,
        attendance_on 10 1 20343 8],
     tbl_overtimes := [overtime_on 1 1 20333 2],
     tbl_reimbursements := [reimbursement_of 1 1 150000 ((20334 * 24 + 10) * Hour)]\<rparr>"




section \<open>Lemmas on the primitives and the loops\<close>

lemma fold_max_ge_init: "(a::nat) \<le> fold max xs a"
  by (induction xs arbitrary: a) (auto intro: order_trans[OF max.cobounded2])

lemma fold_max_ge_elem: "x \<in> set xs \<Longrightarrow> (x::nat) \<le> fold max xs a"
proof (induction xs arbitrary: a)
  case Nil then show ?case by simp
next
  case (Cons y ys)
  show ?case
  proof (cases "x = y")
    case True
    have "y \<le> max y a" by simp
    also have "\<dots> \<le> fold max ys (max y a)" by (rule fold_max_ge_init)
    finally show ?thesis using True by simp
  next
    case False
    with Cons show ?thesis by simp
  qed
qed

lemma uuid_New_fresh: "uuid_New rows \<notin> set (map ID rows)"
proof
  assume "uuid_New rows \<in> set (map ID rows)"
  then have "uuid_New rows \<le> fold max (map ID rows) 0" by (rule fold_max_ge_elem)
  then show False by (simp add: uuid_New_def)
qed

lemma uuid_New_not_Nil: "uuid_New rows \<noteq> 0"
  by (simp add: uuid_New_def)

lemma gorm_Create_Nil_ID:
  "ID x = 0 \<Longrightarrow> gorm_Create rows x = Inr (rows @ [x\<lparr>ID := uuid_New rows\<rparr>], x\<lparr>ID := uuid_New rows\<rparr>)"
  using uuid_New_fresh[of rows] by (simp add: gorm_Create_def BeforeCreate_def Let_def)

lemma fold_least_in: "fold (\<lambda>x m. if ID x < ID m then x else m) rs r \<in> set (r # rs)"
  by (induction rs arbitrary: r) (auto split: if_splits)

lemma gorm_First_None: "(gorm_First P rows = None) = (\<forall>r \<in> set rows. \<not> P r)"
proof -
  have "(gorm_First P rows = None) = (filter P rows = [])"
    by (simp add: gorm_First_def split: list.splits)
  then show ?thesis by (simp add: filter_empty_conv)
qed

lemma gorm_First_Some: "gorm_First P rows = Some r \<Longrightarrow> r \<in> set rows \<and> P r"
proof -
  assume a: "gorm_First P rows = Some r"
  then obtain y ys where f: "filter P rows = y # ys"
    and r: "r = fold (\<lambda>x m. if ID x < ID m then x else m) ys y"
    by (auto simp: gorm_First_def split: list.splits)
  have "r \<in> set (y # ys)" unfolding r by (rule fold_least_in)
  then have "r \<in> set (filter P rows)" using f by simp
  then show ?thesis by simp
qed

lemma gorm_Save_total: "\<exists>rows'. gorm_Save rows x = Inr rows'"
  by (simp add: gorm_Save_def gorm_Create_Nil_ID)

lemma UpdateRowsTx_total: "\<exists>rows'. UpdateRowsTx rows xs = Inr rows'"
proof (induction xs arbitrary: rows)
  case Nil show ?case by simp
next
  case (Cons x xs)
  obtain r where "gorm_Save rows x = Inr r" using gorm_Save_total by blast
  then show ?case using Cons[of r] by simp
qed

lemma fold_add_Hours: "fold (\<lambda>ot acc. acc + Overtime.Hours ot) ots a = a + sum_list (map Overtime.Hours ots)"
  by (induction ots arbitrary: a) auto

lemma fold_add_Amount: "fold (\<lambda>r acc. acc + Amount r) rs a = a + sum_list (map Amount rs)"
  by (induction rs arbitrary: a) auto

lemma totalWorkedHours_loop_sum:
  "totalWorkedHours_loop period attendances acc =
     acc + (\<Sum>att \<leftarrow> filter (\<lambda>att. StartDate period \<le> Attendance.Date att \<and> Attendance.Date att \<le> EndDate period) attendances.
        (if Duration_Hours (Sub (CheckOutTime att) (CheckInTime att)) > 8 then 8
         else if Duration_Hours (Sub (CheckOutTime att) (CheckInTime att)) < 8 then 0
         else Duration_Hours (Sub (CheckOutTime att) (CheckInTime att))))"
  by (induction attendances arbitrary: acc)
     (auto simp: After_def Before_def Equal_def RegularWorkingHoursPerDay_def Let_def)


lemma Hour_pos: "0 < Hour" by (simp add: Hour_def)

lemma FormatDate_midnight: "FormatDate (n * (24 * Hour)) = n"
  using Hour_pos by (simp add: FormatDate_def)



lemma CreateAuditLog_gorm:
  "json_Marshal oldValue = Inr oldJSON \<Longrightarrow> json_Marshal newValue = Inr newJSON \<Longrightarrow>
   \<exists>a. CreateAuditLog NewAuditLogGormRepository now rows (Some u) action entityName entityID
          oldValue newValue ipAddress requestID = Inr (None, rows @ [a])
       \<and> AuditLog.UserID a = Some u \<and> CreatedBy a = u \<and> UpdatedBy a = u"
  by (simp add: CreateAuditLog_def NewAuditLogGormRepository_def AuditLogGorm_Create_def
        gorm_Create_Nil_ID Let_def)

lemma non_overlapping_append:
  "non_overlapping (ps @ [p]) = (non_overlapping ps \<and> (\<forall>q \<in> set ps. disjoint_periods q p))"
  by (induction ps) auto

lemma CreatePayrollPeriod_gorm:
  "PayrollPeriodService_CreatePayrollPeriod NewPayrollPeriodService now db startDate endDate
       createdBy ipAddress requestID =
     (if \<not> startDate < endDate then (Inl ErrEndDateNotAfterStartDate, db)
      else if filter (\<lambda>p. StartDate p \<le> endDate \<and> EndDate p \<ge> startDate) (tbl_payroll_periods db) \<noteq> []
      then (Inl ErrOverlappingPayrollPeriod, db)
      else
        (let period = \<lparr>ID = uuid_New (tbl_payroll_periods db), CreatedAt = now, UpdatedAt = now,
               CreatedBy = createdBy, UpdatedBy = createdBy, IPAddress = ipAddress,
               StartDate = startDate, EndDate = endDate, IsProcessed = False, ProcessedAt = None\<rparr>
         in case CreateAuditLog NewAuditLogGormRepository now (tbl_audit_logs db) (Some createdBy)
                  ''CREATE'' ''PayrollPeriod'' (Some (ID period)) AnyNil (AnyPayrollPeriod period)
                  ipAddress requestID of
              Inl panic \<Rightarrow> (Inl panic, db\<lparr>tbl_payroll_periods := tbl_payroll_periods db @ [period]\<rparr>)
            | Inr (_, audit_logs') \<Rightarrow>
                (Inr period, db\<lparr>tbl_payroll_periods := tbl_payroll_periods db @ [period],
                               tbl_audit_logs := audit_logs'\<rparr>)))"
  by (simp add: PayrollPeriodService_CreatePayrollPeriod_def NewPayrollPeriodService_def
        NewPayrollPeriodGormRepository_def PayrollPeriodGorm_GetOverlappingPayrollPeriods_def
        PayrollPeriodGorm_CreatePayrollPeriod_def gorm_Find_def After_def gorm_Create_Nil_ID Let_def)

lemma CalculatePayslip_cong:
  "tbl_employee_profiles db1 = tbl_employee_profiles db2 \<Longrightarrow>
   tbl_attendances db1 = tbl_attendances db2 \<Longrightarrow>
   tbl_overtimes db1 = tbl_overtimes db2 \<Longrightarrow>
   tbl_reimbursements db1 = tbl_reimbursements db2 \<Longrightarrow>
   CalculatePayslip s now db1 userID period processedBy ipAddress
     = CalculatePayslip s now db2 userID period processedBy ipAddress"
  unfolding CalculatePayslip_def by (simp cong: sum.case_cong option.case_cong)

lemma CreateAuditLog_Some_cases:
  obtains err rows' where
    "CreateAuditLog repo now rows (Some u) action entityName entityID oldValue newValue ipAddress requestID
       = Inr (err, rows')"
proof (cases "CreateAuditLog repo now rows (Some u) action entityName entityID oldValue newValue
                ipAddress requestID")
  case (Inl panic)
  then have False
    by (simp add: CreateAuditLog_def Let_def split: sum.splits)
  then show ?thesis ..
next
  case (Inr result)
  then show ?thesis using that by (cases result) simp
qed

lemma RunPayroll_loop_frame:
  "RunPayroll_loop s now period processedBy ipAddress requestID employees db tx = (r, db', tx') \<Longrightarrow>
     tbl_payroll_periods db' = tbl_payroll_periods db \<and>
     tbl_employee_profiles db' = tbl_employee_profiles db \<and>
     tbl_attendances db' = tbl_attendances db \<and>
     tbl_overtimes db' = tbl_overtimes db \<and>
     tbl_reimbursements db' = tbl_reimbursements db \<and>
     tbl_payslips db' = tbl_payslips db \<and>
     tbl_payroll_periods tx' = tbl_payroll_periods tx \<and>
     tbl_employee_profiles tx' = tbl_employee_profiles tx \<and>
     tbl_audit_logs tx' = tbl_audit_logs tx"
proof (induction employees arbitrary: db tx)
  case Nil
  then show ?case by simp
next
  case (Cons emp employees)
  show ?case
    using Cons.prems
    by (auto simp: RunPayroll_loop.simps(2) Let_def split: sum.splits prod.splits dest!: Cons.IH)
qed

lemma RunPayroll_loop_fails:
  "emp \<in> set employees \<Longrightarrow>
   CalculatePayslip s now db (EmployeeProfile.UserID emp) period processedBy ipAddress = Inl e \<Longrightarrow>
   fst (RunPayroll_loop s now period processedBy ipAddress requestID employees db tx) \<noteq> None"
proof (induction employees arbitrary: db tx)
  case Nil
  then show ?case by simp
next
  case (Cons x employees)
  show ?case
  proof (cases "x = emp")
    case True
    then show ?thesis using Cons.prems(2) by (simp add: RunPayroll_loop.simps(2))
  next
    case False
    then have mem: "emp \<in> set employees" using Cons.prems(1) by simp
    have calc: "\<And>al. CalculatePayslip s now (db\<lparr>tbl_audit_logs := al\<rparr>) (EmployeeProfile.UserID emp) period processedBy ipAddress = Inl e"
      using Cons.prems(2) CalculatePayslip_cong[of "db\<lparr>tbl_audit_logs := al\<rparr>" db for al] by simp
    show ?thesis
      using Cons.IH[OF mem calc]
      by (auto simp: RunPayroll_loop.simps(2) Let_def split: sum.splits prod.splits)
  qed
qed

lemma RunPayroll_unfold:
  "RunPayroll s now db periodID processedBy ipAddress requestID =
     (case GetPayrollPeriodByID (PayrollService.payrollPeriodRepo s) (tbl_payroll_periods db) periodID of
        Inl err \<Rightarrow> (Some err, db)
      | Inr None \<Rightarrow> (Some ErrPayrollPeriodNotFound, db)
      | Inr (Some period) \<Rightarrow>
          if IsProcessed period then (Some ErrPayrollAlreadyProcessed, db)
          else
          (case GetAllEmployeeProfiles (employeeProfileRepo s) (tbl_employee_profiles db) of
             Inl err \<Rightarrow> (Some err, db)
           | Inr employees \<Rightarrow>
          (case RunPayroll_loop s now period processedBy ipAddress requestID employees db db of
             (Some err, dbL, txL) \<Rightarrow> (Some err, dbL)
           | (None, dbL, txL) \<Rightarrow>
          (case MarkPayrollPeriodAsProcessedTx (PayrollService.payrollPeriodRepo s) now
                  (tbl_payroll_periods txL) periodID of
             Inl err \<Rightarrow> (Some (ErrMarkProcessed err), dbL)
           | Inr payroll_periods' \<Rightarrow>
          (case CreateAuditLog (PayrollService.auditRepo s) now (tbl_audit_logs dbL) (Some processedBy)
                  ''UPDATE'' ''PayrollPeriod'' (Some (ID period)) AnyNil (AnyPayrollPeriod period)
                  ipAddress requestID of
             Inl panic \<Rightarrow> (Some panic, dbL)
           | Inr (_, audit_logs') \<Rightarrow>
               (None, Commit (dbL\<lparr>tbl_audit_logs := audit_logs'\<rparr>)
                        (txL\<lparr>tbl_payroll_periods := payroll_periods'\<rparr>)))))))"
  by (simp add: RunPayroll_def Transaction_def RunPayroll_fc_def Let_def
        split: sum.splits option.splits prod.splits)

lemma gorm_First_period_sep:
  "gorm_First (\<lambda>p. ID p = 1) [period_sep] = Some period_sep"
  by (simp add: gorm_First_def period_sep_def)

lemma CalculatePayslip_Inr:
  assumes "GetEmployeeProfileByUserID (employeeProfileRepo s) (tbl_employee_profiles db) userID
             = Inr (Some empProfile)"
    and "GetAttendancesByUserIDAndPeriod (PayrollService.attendanceRepo s) (tbl_attendances db) userID
             (StartDate period) (EndDate period) = Inr atts"
    and "GetOvertimesByUserIDAndPeriod (PayrollService.overtimeRepo s) (tbl_overtimes db) userID
             (StartDate period) (EndDate period) = Inr ots"
    and "GetReimbursementsByUserIDAndPeriod (PayrollService.reimbursementRepo s) (tbl_reimbursements db) userID
             (StartDate period) (EndDate period) = Inr rbs"
  shows "\<exists>payslip atts' ots' rbs'.
     CalculatePayslip s now db userID period processedBy ipAddress = Inr (payslip, atts', ots', rbs')
     \<and> ID payslip = 0
     \<and> Payslip.UserID payslip = userID
     \<and> Payslip.PayrollPeriodID payslip = ID period
     \<and> BaseSalary payslip = Salary empProfile
     \<and> ProratedSalary payslip =
          (if totalPossibleWorkingHours_loop (StartDate period) (EndDate period) 0 > 0
           then Salary empProfile / totalPossibleWorkingHours_loop (StartDate period) (EndDate period) 0
                  * totalWorkedHours_loop period atts 0
           else 0)
     \<and> OvertimePay payslip =
          sum_list (map Overtime.Hours ots) *
          (if totalPossibleWorkingHours_loop (StartDate period) (EndDate period) 0 > 0
           then Salary empProfile / totalPossibleWorkingHours_loop (StartDate period) (EndDate period) 0
           else 0) * 2
     \<and> TotalReimbursement payslip = sum_list (map Amount rbs)
     \<and> TotalTakeHomePay payslip =
          ProratedSalary payslip + OvertimePay payslip + TotalReimbursement payslip"
  using assms
  by (simp add: CalculatePayslip_def Let_def fold_add_Hours fold_add_Amount OvertimeMultiplier_def)

lemma gorm_reads:
  "GetAttendancesByUserIDAndPeriod (PayrollService.attendanceRepo NewPayrollService) rows u a b
     = Inr (filter (\<lambda>x. Attendance.UserID x = u \<and> FormatDate (Attendance.Date x) \<ge> FormatDate a
            \<and> FormatDate (Attendance.Date x) \<le> FormatDate b) rows)"
  "GetOvertimesByUserIDAndPeriod (PayrollService.overtimeRepo NewPayrollService) rows2 u a b
     = Inr (filter (\<lambda>x. Overtime.UserID x = u \<and> FormatDate (Overtime.Date x) \<ge> FormatDate a
            \<and> FormatDate (Overtime.Date x) \<le> FormatDate b) rows2)"
  "GetReimbursementsByUserIDAndPeriod (PayrollService.reimbursementRepo NewPayrollService) rows3 u a b
     = Inr (filter (\<lambda>x. Reimbursement.UserID x = u \<and> CreatedAt x \<ge> a \<and> CreatedAt x \<le> b) rows3)"
  "GetEmployeeProfileByUserID (employeeProfileRepo NewPayrollService) rows4 u
     = Inr (gorm_First (\<lambda>p. EmployeeProfile.UserID p = u) rows4)"
  "GetAllEmployeeProfiles (employeeProfileRepo NewPayrollService) rows4 = Inr rows4"
  "GetPayrollPeriodByID (PayrollService.payrollPeriodRepo NewPayrollService) rows5 i
     = Inr (gorm_First (\<lambda>p. ID p = i) rows5)"
  by (simp_all add: NewPayrollService_def NewAttendanceGormRepository_def
        NewOvertimeGormRepository_def NewReimbursementGormRepository_def
        NewEmployeeProfileGormRepository_def NewPayrollPeriodGormRepository_def
        AttendanceGorm_GetAttendancesByUserIDAndPeriod_def
        OvertimeGorm_GetOvertimesByUserIDAndPeriod_def
        ReimbursementGorm_GetReimbursementsByUserIDAndPeriod_def
        EmployeeProfileGorm_GetEmployeeProfileByUserID_def
        EmployeeProfileGorm_GetAllEmployeeProfiles_def
        PayrollPeriodGorm_GetPayrollPeriodByID_def gorm_Find_def)

lemma gorm_writes:
  "CreatePayslipTx (payslipRepo NewPayrollService) = gorm_Create"
  "UpdateAttendancesTx (PayrollService.attendanceRepo NewPayrollService) = UpdateRowsTx"
  "UpdateOvertimesTx (PayrollService.overtimeRepo NewPayrollService) = UpdateRowsTx"
  "UpdateReimbursementsTx (PayrollService.reimbursementRepo NewPayrollService) = UpdateRowsTx"
  "PayrollService.auditRepo NewPayrollService = NewAuditLogGormRepository"
  "MarkPayrollPeriodAsProcessedTx (PayrollService.payrollPeriodRepo NewPayrollService)
     = PayrollPeriodGorm_MarkPayrollPeriodAsProcessedTx"
  by (simp_all add: NewPayrollService_def NewPayslipGormRepository_def NewAttendanceGormRepository_def
        NewOvertimeGormRepository_def NewReimbursementGormRepository_def
        NewPayrollPeriodGormRepository_def fun_eq_iff
        PayslipGorm_CreatePayslipTx_def AttendanceGorm_UpdateAttendancesTx_def
        OvertimeGorm_UpdateOvertimesTx_def ReimbursementGorm_UpdateReimbursementsTx_def)

lemma CalculatePayslip_gorm:
  assumes "gorm_First (\<lambda>p. EmployeeProfile.UserID p = userID) (tbl_employee_profiles db) = Some empProfile"
  shows "\<exists>payslip atts' ots' rbs'.
     CalculatePayslip NewPayrollService now db userID period processedBy ipAddress
       = Inr (payslip, atts', ots', rbs')
     \<and> ID payslip = 0
     \<and> Payslip.UserID payslip = userID
     \<and> Payslip.PayrollPeriodID payslip = ID period
     \<and> BaseSalary payslip = Salary empProfile"
proof -
  have p: "GetEmployeeProfileByUserID (employeeProfileRepo NewPayrollService) (tbl_employee_profiles db) userID
             = Inr (Some empProfile)"
    using assms by (simp add: gorm_reads)
  show ?thesis
    using CalculatePayslip_Inr [where period = period and now = now and processedBy = processedBy
        and ipAddress = ipAddress, OF p gorm_reads(1) gorm_reads(2) gorm_reads(3)]
    by blast
qed

lemma loop_step_gorm:
  assumes "CalculatePayslip NewPayrollService now db (EmployeeProfile.UserID emp) period processedBy ipAddress
             = Inr (payslip, atts, ots, rbs)"
    and "ID payslip = 0"
  shows "\<exists>a txN.
     RunPayroll_loop NewPayrollService now period processedBy ipAddress requestID (emp # employees) db tx
       = RunPayroll_loop NewPayrollService now period processedBy ipAddress requestID employees
           (db\<lparr>tbl_audit_logs := tbl_audit_logs db @ [a]\<rparr>) txN
     \<and> AuditLog.UserID a = Some processedBy
     \<and> tbl_payslips txN = tbl_payslips tx @ [payslip\<lparr>ID := uuid_New (tbl_payslips tx)\<rparr>]
     \<and> tbl_payroll_periods txN = tbl_payroll_periods tx"
proof -
  let ?p = "payslip\<lparr>ID := uuid_New (tbl_payslips tx)\<rparr>"
  obtain a1 where a1: "UpdateRowsTx (tbl_attendances tx) atts = Inr a1"
    using UpdateRowsTx_total by blast
  obtain o1 where o1: "UpdateRowsTx (tbl_overtimes tx) ots = Inr o1"
    using UpdateRowsTx_total by blast
  obtain r1 where r1: "UpdateRowsTx (tbl_reimbursements tx) rbs = Inr r1"
    using UpdateRowsTx_total by blast
  obtain a where a: "CreateAuditLog NewAuditLogGormRepository now (tbl_audit_logs db) (Some processedBy)
       ''CREATE'' ''Payslip'' (Some (ID ?p)) AnyNil (AnyPayslip ?p) ipAddress requestID
       = Inr (None, tbl_audit_logs db @ [a])" and u: "AuditLog.UserID a = Some processedBy"
    using CreateAuditLog_gorm[OF json_Marshal.simps(1) json_Marshal.simps(5)] by blast
  let ?txN = "tx\<lparr>tbl_payslips := tbl_payslips tx @ [?p], tbl_attendances := a1,
                  tbl_overtimes := o1, tbl_reimbursements := r1\<rparr>"
  have "RunPayroll_loop NewPayrollService now period processedBy ipAddress requestID (emp # employees) db tx
       = RunPayroll_loop NewPayrollService now period processedBy ipAddress requestID employees
           (db\<lparr>tbl_audit_logs := tbl_audit_logs db @ [a]\<rparr>) ?txN"
    using assms a1 o1 r1 a
    by (simp add: RunPayroll_loop.simps(2) gorm_writes gorm_Create_Nil_ID Let_def)
  then show ?thesis using u by (intro exI[of _ a] exI[of _ ?txN]) simp
qed

lemma Mark_gorm:
  "PayrollPeriodGorm_MarkPayrollPeriodAsProcessedTx now tx periodID =
     (if \<exists>p \<in> set tx. ID p = periodID \<and> \<not> IsProcessed p
      then Inr (map (\<lambda>p. if ID p = periodID \<and> \<not> IsProcessed p
                          then p\<lparr>IsProcessed := True, ProcessedAt := Some now, UpdatedAt := now\<rparr> else p) tx)
      else Inl ErrNoPayrollPeriodUpdated)"
  by (simp add: PayrollPeriodGorm_MarkPayrollPeriodAsProcessedTx_def Let_def filter_empty_conv)

lemma Mark_gorm_processed:
  assumes "PayrollPeriodGorm_MarkPayrollPeriodAsProcessedTx now tx periodID = Inr tx'"
  shows "(\<exists>p \<in> set tx. ID p = periodID \<and> \<not> IsProcessed p)
     \<and> (\<forall>p \<in> set tx'. ID p = periodID \<longrightarrow> IsProcessed p)
     \<and> (\<exists>p. gorm_First (\<lambda>p. ID p = periodID) tx' = Some p \<and> IsProcessed p)"
proof -
  define f where "f = (\<lambda>p::PayrollPeriod. if ID p = periodID \<and> \<not> IsProcessed p
                          then p\<lparr>IsProcessed := True, ProcessedAt := Some now, UpdatedAt := now\<rparr> else p)"
  have ex: "\<exists>p \<in> set tx. ID p = periodID \<and> \<not> IsProcessed p"
    using assms by (simp add: Mark_gorm split: if_splits)
  then have tx': "tx' = map f tx"
    using assms by (simp add: Mark_gorm f_def)
  have fid: "\<And>p. ID (f p) = ID p" by (simp add: f_def)
  have fpr: "\<And>p. ID p = periodID \<Longrightarrow> IsProcessed (f p)" by (simp add: f_def)
  have all: "\<forall>p \<in> set tx'. ID p = periodID \<longrightarrow> IsProcessed p"
  proof (intro ballI impI)
    fix p assume "p \<in> set tx'" and i: "ID p = periodID"
    then obtain q where q: "q \<in> set tx" "p = f q" unfolding tx' by auto
    then have "ID q = periodID" using i fid by simp
    then show "IsProcessed p" using q fpr by simp
  qed
  from ex obtain q where "q \<in> set tx" "ID q = periodID" by blast
  then have "f q \<in> set tx'" "ID (f q) = periodID" unfolding tx' using fid by simp_all
  then have "gorm_First (\<lambda>p. ID p = periodID) tx' \<noteq> None"
    unfolding gorm_First_None by blast
  then obtain r where r: "gorm_First (\<lambda>p. ID p = periodID) tx' = Some r" by blast
  from gorm_First_Some[OF r] all have "IsProcessed r" by blast
  with ex all r show ?thesis by blast
qed

lemma RunPayroll_loop_gorm:
  assumes "set employees \<subseteq> set (tbl_employee_profiles db)"
  shows "\<exists>dbL txL ps new.
     RunPayroll_loop NewPayrollService now period processedBy ipAddress requestID employees db tx
       = (None, dbL, txL)
     \<and> tbl_payslips txL = tbl_payslips tx @ ps
     \<and> list_all2 (\<lambda>p emp. \<exists>payslip atts ots rbs.
          CalculatePayslip NewPayrollService now db (EmployeeProfile.UserID emp) period processedBy ipAddress
            = Inr (payslip, atts, ots, rbs) \<and> p = payslip\<lparr>ID := ID p\<rparr>) ps employees
     \<and> tbl_audit_logs dbL = tbl_audit_logs db @ new
     \<and> (\<forall>a \<in> set new. AuditLog.UserID a = Some processedBy)"
  using assms
proof (induction employees arbitrary: db tx)
  case Nil
  show ?case by simp
next
  case (Cons emp employees)
  have "emp \<in> set (tbl_employee_profiles db)" using Cons.prems by simp
  then have "gorm_First (\<lambda>p. EmployeeProfile.UserID p = EmployeeProfile.UserID emp) (tbl_employee_profiles db) \<noteq> None"
    by (auto simp: gorm_First_None)
  then obtain empProfile where
    "gorm_First (\<lambda>p. EmployeeProfile.UserID p = EmployeeProfile.UserID emp) (tbl_employee_profiles db) = Some empProfile"
    by blast
  from CalculatePayslip_gorm[OF this, of now period processedBy ipAddress]
  obtain payslip atts ots rbs where
    calc: "CalculatePayslip NewPayrollService now db (EmployeeProfile.UserID emp) period processedBy ipAddress
             = Inr (payslip, atts, ots, rbs)" and id0: "ID payslip = 0"
    by blast
  from loop_step_gorm[OF calc id0, of requestID employees tx]
  obtain a txN where
    step: "RunPayroll_loop NewPayrollService now period processedBy ipAddress requestID (emp # employees) db tx
       = RunPayroll_loop NewPayrollService now period processedBy ipAddress requestID employees
           (db\<lparr>tbl_audit_logs := tbl_audit_logs db @ [a]\<rparr>) txN"
    and a: "AuditLog.UserID a = Some processedBy"
    and ps: "tbl_payslips txN = tbl_payslips tx @ [payslip\<lparr>ID := uuid_New (tbl_payslips tx)\<rparr>]"
    by blast
  let ?db1 = "db\<lparr>tbl_audit_logs := tbl_audit_logs db @ [a]\<rparr>"
  have sub: "set employees \<subseteq> set (tbl_employee_profiles ?db1)" using Cons.prems by simp
  from Cons.IH[OF sub, of txN]
  obtain dbL txL ps' new' where
    loop: "RunPayroll_loop NewPayrollService now period processedBy ipAddress requestID employees ?db1 txN
       = (None, dbL, txL)"
    and ps': "tbl_payslips txL = tbl_payslips txN @ ps'"
    and rel: "list_all2 (\<lambda>p emp. \<exists>payslip atts ots rbs.
          CalculatePayslip NewPayrollService now ?db1 (EmployeeProfile.UserID emp) period processedBy ipAddress
            = Inr (payslip, atts, ots, rbs) \<and> p = payslip\<lparr>ID := ID p\<rparr>) ps' employees"
    and al: "tbl_audit_logs dbL = tbl_audit_logs ?db1 @ new'"
    and new': "\<forall>a \<in> set new'. AuditLog.UserID a = Some processedBy"
    by blast
  have same: "\<And>u. CalculatePayslip NewPayrollService now ?db1 u period processedBy ipAddress
                 = CalculatePayslip NewPayrollService now db u period processedBy ipAddress"
    by (rule CalculatePayslip_cong) simp_all
  have rel': "list_all2 (\<lambda>p emp. \<exists>payslip atts ots rbs.
          CalculatePayslip NewPayrollService now db (EmployeeProfile.UserID emp) period processedBy ipAddress
            = Inr (payslip, atts, ots, rbs) \<and> p = payslip\<lparr>ID := ID p\<rparr>)
        (payslip\<lparr>ID := uuid_New (tbl_payslips tx)\<rparr> # ps') (emp # employees)"
    using rel calc unfolding same by simp
  show ?case
    apply (rule exI[of _ dbL], rule exI[of _ txL])
    apply (rule exI[of _ "payslip\<lparr>ID := uuid_New (tbl_payslips tx)\<rparr> # ps'"])
    apply (rule exI[of _ "a # new'"])
    using step loop ps ps' rel' al a new' by simp
qed

lemma RunPayroll_gorm:
  "RunPayroll NewPayrollService now db periodID processedBy ipAddress requestID =
     (case gorm_First (\<lambda>p. ID p = periodID) (tbl_payroll_periods db) of
        None \<Rightarrow> (Some ErrPayrollPeriodNotFound, db)
      | Some period \<Rightarrow>
          if IsProcessed period then (Some ErrPayrollAlreadyProcessed, db)
          else
          (case RunPayroll_loop NewPayrollService now period processedBy ipAddress requestID
                  (tbl_employee_profiles db) db db of
             (Some err, dbL, txL) \<Rightarrow> (Some err, dbL)
           | (None, dbL, txL) \<Rightarrow>
          (case PayrollPeriodGorm_MarkPayrollPeriodAsProcessedTx now (tbl_payroll_periods txL) periodID of
             Inl err \<Rightarrow> (Some (ErrMarkProcessed err), dbL)
           | Inr payroll_periods' \<Rightarrow>
          (case CreateAuditLog NewAuditLogGormRepository now (tbl_audit_logs dbL) (Some processedBy)
                  ''UPDATE'' ''PayrollPeriod'' (Some (ID period)) AnyNil (AnyPayrollPeriod period)
                  ipAddress requestID of
             Inl panic \<Rightarrow> (Some panic, dbL)
           | Inr (_, audit_logs') \<Rightarrow>
               (None, Commit (dbL\<lparr>tbl_audit_logs := audit_logs'\<rparr>)
                        (txL\<lparr>tbl_payroll_periods := payroll_periods'\<rparr>))))))"
  by (simp add: RunPayroll_unfold gorm_reads gorm_writes
        cong: option.case_cong prod.case_cong sum.case_cong if_cong)

lemma RunPayroll_gorm_success:
  assumes "gorm_First (\<lambda>p. ID p = periodID) (tbl_payroll_periods db) = Some period"
    and "\<not> IsProcessed period"
  shows "\<exists>db' ps new payroll_periods'.
     RunPayroll NewPayrollService now db periodID processedBy ipAddress requestID = (None, db')
     \<and> tbl_payslips db' = tbl_payslips db @ ps
     \<and> list_all2 (\<lambda>p emp. \<exists>payslip atts ots rbs.
          CalculatePayslip NewPayrollService now db (EmployeeProfile.UserID emp) period processedBy ipAddress
            = Inr (payslip, atts, ots, rbs) \<and> p = payslip\<lparr>ID := ID p\<rparr>) ps (tbl_employee_profiles db)
     \<and> PayrollPeriodGorm_MarkPayrollPeriodAsProcessedTx now (tbl_payroll_periods db) periodID
          = Inr payroll_periods'
     \<and> tbl_payroll_periods db' = payroll_periods'
     \<and> tbl_employee_profiles db' = tbl_employee_profiles db
     \<and> tbl_audit_logs db' = tbl_audit_logs db @ new
     \<and> (\<forall>a \<in> set new. AuditLog.UserID a = Some processedBy)"
proof -
  from RunPayroll_loop_gorm[of "tbl_employee_profiles db" db now period processedBy ipAddress requestID db]
  obtain dbL txL ps new where
    loop: "RunPayroll_loop NewPayrollService now period processedBy ipAddress requestID
             (tbl_employee_profiles db) db db = (None, dbL, txL)"
    and ps: "tbl_payslips txL = tbl_payslips db @ ps"
    and rel: "list_all2 (\<lambda>p emp. \<exists>payslip atts ots rbs.
          CalculatePayslip NewPayrollService now db (EmployeeProfile.UserID emp) period processedBy ipAddress
            = Inr (payslip, atts, ots, rbs) \<and> p = payslip\<lparr>ID := ID p\<rparr>) ps (tbl_employee_profiles db)"
    and al: "tbl_audit_logs dbL = tbl_audit_logs db @ new"
    and new: "\<forall>a \<in> set new. AuditLog.UserID a = Some processedBy"
    by blast
  note frame = RunPayroll_loop_frame[OF loop]
  from gorm_First_Some[OF assms(1)] assms(2)
  have ex: "\<exists>p \<in> set (tbl_payroll_periods txL). ID p = periodID \<and> \<not> IsProcessed p"
    using frame by (intro bexI[of _ period]) simp_all
  define pp where "pp = map (\<lambda>p. if ID p = periodID \<and> \<not> IsProcessed p
                          then p\<lparr>IsProcessed := True, ProcessedAt := Some now, UpdatedAt := now\<rparr> else p) (tbl_payroll_periods db)"
  have mark: "PayrollPeriodGorm_MarkPayrollPeriodAsProcessedTx now (tbl_payroll_periods txL) periodID = Inr pp"
    using ex frame by (simp add: Mark_gorm pp_def)
  obtain a where a: "CreateAuditLog NewAuditLogGormRepository now (tbl_audit_logs dbL) (Some processedBy)
                  ''UPDATE'' ''PayrollPeriod'' (Some (ID period)) AnyNil (AnyPayrollPeriod period)
                  ipAddress requestID = Inr (None, tbl_audit_logs dbL @ [a])"
    and u: "AuditLog.UserID a = Some processedBy"
    using CreateAuditLog_gorm[OF json_Marshal.simps(1) json_Marshal.simps(6)] by blast
  have run: "RunPayroll NewPayrollService now db periodID processedBy ipAddress requestID
       = (None, Commit (dbL\<lparr>tbl_audit_logs := tbl_audit_logs dbL @ [a]\<rparr>)
                  (txL\<lparr>tbl_payroll_periods := pp\<rparr>))"
    using assms loop mark a by (simp add: RunPayroll_gorm)
  show ?thesis
    apply (rule exI[of _ "Commit (dbL\<lparr>tbl_audit_logs := tbl_audit_logs dbL @ [a]\<rparr>)
                  (txL\<lparr>tbl_payroll_periods := pp\<rparr>)"])
    apply (rule exI[of _ ps], rule exI[of _ "new @ [a]"], rule exI[of _ pp])
    using run ps rel mark frame al new u by (simp add: Commit_def)
qed

lemma filter_unique_key:
  assumes "distinct (map f xs)" and "x \<in> set xs"
  shows "filter (\<lambda>y. f y = f x) xs = [x]"
  using assms
proof (induction xs)
  case Nil
  then show ?case by simp
next
  case (Cons a xs)
  show ?case
  proof (cases "a = x")
    case True
    then have "f x \<notin> f ` set xs" using Cons.prems(1) by simp
    then have "\<forall>y \<in> set xs. f y \<noteq> f x" by (metis imageI)
    then have "filter (\<lambda>y. f y = f x) xs = []" by (simp add: filter_empty_conv)
    then show ?thesis using True by simp
  next
    case False
    then have "x \<in> set xs" using Cons.prems(2) by simp
    moreover have "f a \<notin> f ` set xs" using Cons.prems(1) by simp
    then have "f a \<noteq> f x" using \<open>x \<in> set xs\<close> by (metis imageI)
    ultimately show ?thesis using Cons by simp
  qed
qed

lemma list_all2_filter_unique:
  assumes "list_all2 R ps emps" and "distinct (map uid emps)" and "emp \<in> set emps"
    and "\<And>p e. R p e \<Longrightarrow> key p = uid e"
  shows "\<exists>p. filter (\<lambda>p. key p = uid emp) ps = [p] \<and> R p emp"
  using assms(1,2,3)
proof (induction rule: list_all2_induct)
  case Nil
  then show ?case by simp
next
  case (Cons p ps e es)
  have kp: "key p = uid e" using Cons.hyps(1) assms(4) by blast
  show ?case
  proof (cases "e = emp")
    case True
    have "\<forall>q \<in> set ps. key q \<noteq> uid emp"
    proof
      fix q assume "q \<in> set ps"
      then obtain i where i: "i < length ps" "q = ps ! i" by (auto simp: in_set_conv_nth)
      then have "es ! i \<in> set es" "R q (es ! i)"
        using Cons.hyps(2) by (simp_all add: list_all2_lengthD list_all2_nthD)
      then obtain e' where "e' \<in> set es" "R q e'" by blast
      have "uid e \<notin> uid ` set es" using Cons.prems(1) by simp
      then have "uid e' \<noteq> uid emp" using True \<open>e' \<in> set es\<close> by (metis imageI)
      moreover have "key q = uid e'" using assms(4) \<open>R q e'\<close> by blast
      ultimately have "key q = uid e'" "uid e' \<noteq> uid emp" by simp_all
      then show "key q \<noteq> uid emp" by simp
    qed
    then have "filter (\<lambda>p. key p = uid emp) ps = []" by (simp add: filter_empty_conv)
    then show ?thesis using True kp Cons.hyps(1) by simp
  next
    case False
    then have mem: "emp \<in> set es" using Cons.prems(2) by simp
    have "uid e \<notin> uid ` set es" using Cons.prems(1) by simp
    then have "uid e \<noteq> uid emp" using mem by (metis imageI)
    then have "key p \<noteq> uid emp" using kp by simp
    moreover have "\<exists>p. filter (\<lambda>p. key p = uid emp) ps = [p] \<and> R p emp"
      using Cons.IH Cons.prems(1) mem by simp
    ultimately show ?thesis by simp
  qed
qed

lemma payslip_fields_of_update:
  "p = payslip\<lparr>ID := i\<rparr> \<Longrightarrow>
     Payslip.UserID p = Payslip.UserID payslip \<and>
     Payslip.PayrollPeriodID p = Payslip.PayrollPeriodID payslip \<and>
     BaseSalary p = BaseSalary payslip \<and>
     ProratedSalary p = ProratedSalary payslip \<and>
     OvertimePay p = OvertimePay payslip \<and>
     TotalReimbursement p = TotalReimbursement payslip \<and>
     TotalTakeHomePay p = TotalTakeHomePay payslip"
  by simp

lemma CalculatePayslip_gorm_fields:
  assumes "CalculatePayslip NewPayrollService now db userID period processedBy ipAddress
             = Inr (payslip, atts, ots, rbs)"
  shows "\<exists>empProfile.
     gorm_First (\<lambda>p. EmployeeProfile.UserID p = userID) (tbl_employee_profiles db) = Some empProfile
     \<and> Payslip.UserID payslip = userID
     \<and> Payslip.PayrollPeriodID payslip = ID period
     \<and> BaseSalary payslip = Salary empProfile
     \<and> ProratedSalary payslip =
          (if totalPossibleWorkingHours_loop (StartDate period) (EndDate period) 0 > 0
           then Salary empProfile / totalPossibleWorkingHours_loop (StartDate period) (EndDate period) 0
                  * totalWorkedHours_loop period
                      (filter (\<lambda>x. Attendance.UserID x = userID
                           \<and> FormatDate (Attendance.Date x) \<ge> FormatDate (StartDate period)
                           \<and> FormatDate (Attendance.Date x) \<le> FormatDate (EndDate period))
                         (tbl_attendances db)) 0
           else 0)
     \<and> OvertimePay payslip =
          sum_list (map Overtime.Hours
            (filter (\<lambda>x. Overtime.UserID x = userID
                 \<and> FormatDate (Overtime.Date x) \<ge> FormatDate (StartDate period)
                 \<and> FormatDate (Overtime.Date x) \<le> FormatDate (EndDate period))
               (tbl_overtimes db))) *
          (if totalPossibleWorkingHours_loop (StartDate period) (EndDate period) 0 > 0
           then Salary empProfile / totalPossibleWorkingHours_loop (StartDate period) (EndDate period) 0
           else 0) * 2
     \<and> TotalReimbursement payslip =
          sum_list (map Amount
            (filter (\<lambda>x. Reimbursement.UserID x = userID \<and> CreatedAt x \<ge> StartDate period
                 \<and> CreatedAt x \<le> EndDate period) (tbl_reimbursements db)))
     \<and> TotalTakeHomePay payslip =
          ProratedSalary payslip + OvertimePay payslip + TotalReimbursement payslip"
proof (cases "gorm_First (\<lambda>p. EmployeeProfile.UserID p = userID) (tbl_employee_profiles db)")
  case None
  then have "CalculatePayslip NewPayrollService now db userID period processedBy ipAddress
               = Inl ErrEmployeeProfileNotFound"
    by (simp add: CalculatePayslip_def gorm_reads)
  then show ?thesis using assms by simp
next
  case (Some empProfile)
  then have p: "GetEmployeeProfileByUserID (employeeProfileRepo NewPayrollService)
                  (tbl_employee_profiles db) userID = Inr (Some empProfile)"
    by (simp add: gorm_reads)
  from CalculatePayslip_Inr [where period = period and now = now and processedBy = processedBy
        and ipAddress = ipAddress, OF p gorm_reads(1) gorm_reads(2) gorm_reads(3)] assms Some
  show ?thesis by auto
qed

lemma gorm_First_db_sep_period:
  "gorm_First (\<lambda>p. ID p = 1) (tbl_payroll_periods db_sep) = Some period_sep"
  using gorm_First_period_sep by (simp add: db_sep_def db_empty_def)

lemma CreateAuditLog_gorm_eq:
  "CreateAuditLog NewAuditLogGormRepository now rows (Some u) action entityName entityID
       oldValue newValue ipAddress requestID
     = (case json_Marshal oldValue of
          Inl err \<Rightarrow> Inr (Some err, rows)
        | Inr oldJSON \<Rightarrow>
       (case json_Marshal newValue of
          Inl err \<Rightarrow> Inr (Some err, rows)
        | Inr newJSON \<Rightarrow>
            Inr (None, rows @
              [\<lparr>ID = uuid_New rows, CreatedAt = now, UpdatedAt = now, CreatedBy = u, UpdatedBy = u,
                IPAddress = ipAddress,
                AuditLog.UserID = Some u, Action = action, EntityName = entityName,
                EntityID = entityID, OldValue = oldJSON, NewValue = newJSON,
                RequestID = requestID, Timestamp = now\<rparr>])))"
  by (simp add: CreateAuditLog_def NewAuditLogGormRepository_def AuditLogGorm_Create_def
        gorm_Create_Nil_ID Let_def split: sum.splits)

lemma audit_appended_by_same: "tbl_audit_logs db' = tbl_audit_logs db \<Longrightarrow> audit_appended_by u db db'"
  by (simp add: audit_appended_by_def)

lemma audit_appended_by_one:
  "tbl_audit_logs db' = tbl_audit_logs db @ [a] \<Longrightarrow> AuditLog.UserID a = Some u \<Longrightarrow>
     audit_appended_by u db db'"
  unfolding audit_appended_by_def by (intro exI[of _ "[a]"]) simp

lemma SubmitAttendance_gorm_audit:
  "fst (SubmitAttendance NewAttendanceService now db userID checkInTime checkOutTime ipAddress requestID)
      \<noteq> Inl PanicNilDereference
   \<and> audit_appended_by userID db
        (snd (SubmitAttendance NewAttendanceService now db userID checkInTime checkOutTime ipAddress requestID))"
proof (cases "Weekday checkInTime = Saturday \<or> Weekday checkInTime = Sunday")
  case True
  then show ?thesis by (simp add: SubmitAttendance_def audit_appended_by_same)
next
  case False
  show ?thesis
  proof (cases "gorm_First (\<lambda>a. Attendance.UserID a = userID
                  \<and> FormatDate (Attendance.Date a) = FormatDate checkInTime) (tbl_attendances db)")
    case None
    with False show ?thesis
      by (simp add: SubmitAttendance_def NewAttendanceService_def NewAttendanceGormRepository_def
            AttendanceGorm_GetAttendanceByUserIDAndDate_def AttendanceGorm_CreateAttendance_def
            gorm_Create_Nil_ID CreateAuditLog_gorm_eq Let_def audit_appended_by_one)
  next
    case (Some existing)
    obtain rows' where "gorm_Save (tbl_attendances db)
        (existing\<lparr>CheckInTime := checkInTime, CheckOutTime := checkOutTime,
                  UpdatedAt := now, UpdatedBy := userID, IPAddress := ipAddress\<rparr>) = Inr rows'"
      using gorm_Save_total by blast
    with False Some show ?thesis
      by (simp add: SubmitAttendance_def NewAttendanceService_def NewAttendanceGormRepository_def
            AttendanceGorm_GetAttendanceByUserIDAndDate_def AttendanceGorm_UpdateAttendance_def
            CreateAuditLog_gorm_eq Let_def audit_appended_by_one)
  qed
qed

lemma SubmitOvertime_gorm_audit:
  "fst (SubmitOvertime NewOvertimeService now db userID date hours ipAddress requestID)
      \<noteq> Inl PanicNilDereference
   \<and> audit_appended_by userID db
        (snd (SubmitOvertime NewOvertimeService now db userID date hours ipAddress requestID))"
  by (simp add: SubmitOvertime_def NewOvertimeService_def NewOvertimeGormRepository_def
        OvertimeGorm_GetOvertimeByUserIDAndDate_def OvertimeGorm_CreateOvertime_def
        gorm_Create_Nil_ID CreateAuditLog_gorm_eq Let_def audit_appended_by_one
        audit_appended_by_same)

lemma SubmitReimbursement_gorm_audit:
  "fst (SubmitReimbursement NewReimbursementService now db userID amount description ipAddress requestID)
      \<noteq> Inl PanicNilDereference
   \<and> audit_appended_by userID db
        (snd (SubmitReimbursement NewReimbursementService now db userID amount description ipAddress requestID))"
  by (simp add: SubmitReimbursement_def NewReimbursementService_def NewReimbursementGormRepository_def
        ReimbursementGorm_CreateReimbursement_def
        gorm_Create_Nil_ID CreateAuditLog_gorm_eq Let_def audit_appended_by_one)

lemma CreatePayrollPeriod_gorm_audit:
  "fst (PayrollPeriodService_CreatePayrollPeriod NewPayrollPeriodService now db startDate endDate
          createdBy ipAddress requestID) \<noteq> Inl PanicNilDereference
   \<and> audit_appended_by createdBy db
        (snd (PayrollPeriodService_CreatePayrollPeriod NewPayrollPeriodService now db startDate endDate
          createdBy ipAddress requestID))"
  by (simp add: CreatePayrollPeriod_gorm CreateAuditLog_gorm_eq Let_def audit_appended_by_one
        audit_appended_by_same)

lemma RunPayroll_gorm_audit:
  "fst (RunPayroll NewPayrollService now db periodID processedBy ipAddress requestID)
      \<noteq> Some PanicNilDereference
   \<and> audit_appended_by processedBy db
        (snd (RunPayroll NewPayrollService now db periodID processedBy ipAddress requestID))"
proof (cases "gorm_First (\<lambda>p. ID p = periodID) (tbl_payroll_periods db)")
  case None
  then show ?thesis by (simp add: RunPayroll_gorm audit_appended_by_same)
next
  case (Some period)
  show ?thesis
  proof (cases "IsProcessed period")
    case True
    with Some show ?thesis by (simp add: RunPayroll_gorm audit_appended_by_same)
  next
    case False
    from RunPayroll_gorm_success[OF Some False, of now processedBy ipAddress requestID]
    obtain db' new where "RunPayroll NewPayrollService now db periodID processedBy ipAddress requestID = (None, db')"
      "tbl_audit_logs db' = tbl_audit_logs db @ new"
      "\<forall>a \<in> set new. AuditLog.UserID a = Some processedBy"
      by blast
    then show ?thesis
      unfolding audit_appended_by_def by (simp add: list_all_iff)
  qed
qed








lemma MarkPayrollPeriodAsProcessed_gorm_audit:
  "fst (PayrollPeriodService_MarkPayrollPeriodAsProcessed NewPayrollPeriodService now requestID db
          periodID updatedBy ipAddress) \<noteq> Some PanicNilDereference
   \<and> audit_appended_by updatedBy db
        (snd (PayrollPeriodService_MarkPayrollPeriodAsProcessed NewPayrollPeriodService now requestID db
          periodID updatedBy ipAddress))"
proof (cases "gorm_First (\<lambda>p. ID p = periodID) (tbl_payroll_periods db)")
  case None
  then show ?thesis
    by (simp add: PayrollPeriodService_MarkPayrollPeriodAsProcessed_def NewPayrollPeriodService_def
          NewPayrollPeriodGormRepository_def PayrollPeriodGorm_GetPayrollPeriodByID_def
          audit_appended_by_same)
next
  case (Some period)
  then show ?thesis
    by (simp add: PayrollPeriodService_MarkPayrollPeriodAsProcessed_def NewPayrollPeriodService_def
          NewPayrollPeriodGormRepository_def PayrollPeriodGorm_GetPayrollPeriodByID_def
          PayrollPeriodGorm_MarkPayrollPeriodAsProcessed_def CreateAuditLog_gorm_eq Let_def
          audit_appended_by_one)
qed

lemma CreateAuditLog_nil_encoded:
  "json_Marshal oldValue = Inr oldJSON \<Longrightarrow> json_Marshal newValue = Inr newJSON \<Longrightarrow>
   CreateAuditLog repo now rows None action entityName entityID oldValue newValue ipAddress requestID
     = Inl PanicNilDereference"
  by (simp add: CreateAuditLog_def)

lemma CreateAuditLog_first_encoding_fails:
  "json_Marshal oldValue = Inl err \<Longrightarrow>
   CreateAuditLog repo now rows userID action entityName entityID oldValue newValue ipAddress requestID
     = Inr (Some err, rows)"
  by (simp add: CreateAuditLog_def)

lemma CreateAuditLog_second_encoding_fails:
  "json_Marshal oldValue = Inr oldJSON \<Longrightarrow> json_Marshal newValue = Inl err \<Longrightarrow>
   CreateAuditLog repo now rows userID action entityName entityID oldValue newValue ipAddress requestID
     = Inr (Some err, rows)"
  by (simp add: CreateAuditLog_def)

lemma CreateAuditLog_nil_cases:
  "CreateAuditLog repo now rows None action entityName entityID oldValue newValue ipAddress requestID
     = Inl PanicNilDereference
   \<or> (\<exists>e. CreateAuditLog repo now rows None action entityName entityID oldValue newValue ipAddress
            requestID = Inr (Some e, rows))"
  by (simp add: CreateAuditLog_def split: sum.splits)

lemma CreateAuditLog_panic_free_iff:
  "(\<forall>old new. CreateAuditLog repo now rows userID action entityName entityID old new ipAddress requestID
       \<noteq> Inl PanicNilDereference) = (userID \<noteq> None)"
proof (cases userID)
  case None
  have "CreateAuditLog repo now rows None action entityName entityID AnyNil AnyNil ipAddress requestID
       = Inl PanicNilDereference"
    by (simp add: CreateAuditLog_def)
  with None show ?thesis by blast
next
  case (Some u)
  have "\<And>old new. CreateAuditLog repo now rows (Some u) action entityName entityID old new ipAddress requestID
       \<noteq> Inl PanicNilDereference"
  proof -
    fix old new
    obtain e rows' where
      "CreateAuditLog repo now rows (Some u) action entityName entityID old new ipAddress requestID
         = Inr (e, rows')"
      by (rule CreateAuditLog_Some_cases)
    then show "CreateAuditLog repo now rows (Some u) action entityName entityID old new ipAddress requestID
       \<noteq> Inl PanicNilDereference" by simp
  qed
  with Some show ?thesis by simp
qed

section \<open>The claims\<close>



text \<open>
  C2. For every run of \<open>RunPayroll\<close>, whatever the repositories are: if \<open>CalculatePayslip\<close>
  fails for any employee of the population (for example because the lookup of the
  profile returns none), the run returns an error and the transaction is rolled back.
  Afterwards the tables of payslips, attendances, overtimes, reimbursements and periods
  are what they were before the run: no payslip of this run is visible, no record is
  tagged with the period, and the period is still not processed.
\<close>

theorem C2_calculation_failure_aborts_run:
  assumes "GetPayrollPeriodByID (PayrollService.payrollPeriodRepo s) (tbl_payroll_periods db) periodID
             = Inr (Some period)"
    and "\<not> IsProcessed period"
    and "GetAllEmployeeProfiles (employeeProfileRepo s) (tbl_employee_profiles db) = Inr employees"
    and "emp \<in> set employees"
    and "CalculatePayslip s now db (EmployeeProfile.UserID emp) period processedBy ipAddress = Inl e"
  shows "\<exists>err db'. RunPayroll s now db periodID processedBy ipAddress requestID = (Some err, db')
     \<and> tbl_payslips db' = tbl_payslips db
     \<and> tbl_attendances db' = tbl_attendances db
     \<and> tbl_overtimes db' = tbl_overtimes db
     \<and> tbl_reimbursements db' = tbl_reimbursements db
     \<and> tbl_employee_profiles db' = tbl_employee_profiles db
     \<and> tbl_payroll_periods db' = tbl_payroll_periods db
     \<and> GetPayrollPeriodByID (PayrollService.payrollPeriodRepo s) (tbl_payroll_periods db') periodID
          = Inr (Some period)"
proof -
  obtain r dbL txL where loop:
    "RunPayroll_loop s now period processedBy ipAddress requestID employees db db = (r, dbL, txL)"
    by (metis prod_cases3)
  have "fst (RunPayroll_loop s now period processedBy ipAddress requestID employees db db) \<noteq> None"
    using assms(4,5) by (rule RunPayroll_loop_fails)
  then obtain err where r: "r = Some err" using loop by auto
  have run: "RunPayroll s now db periodID processedBy ipAddress requestID = (Some err, dbL)"
    using assms(1,2,3) loop r by (simp add: RunPayroll_unfold)
  show ?thesis
    using run RunPayroll_loop_frame[OF loop] assms(1) by simp
qed

text \<open>
  Three employees, the lookup of the profile of the second one mocked to return none:
  the run fails, no payslip exists, the period is unprocessed.
\<close>

theorem C2_calculation_failure_aborts_run_witness:
  "\<exists>err db'. RunPayroll (NewPayrollService\<lparr>employeeProfileRepo := EmployeeProfileMock_missing 2\<rparr>)
        0 db_three 1 9 ''10.0.0.1'' ''r3'' = (Some err, db')
     \<and> tbl_payslips db' = []
     \<and> tbl_attendances db' = []
     \<and> tbl_overtimes db' = []
     \<and> tbl_reimbursements db' = []
     \<and> tbl_employee_profiles db' = tbl_employee_profiles db_three
     \<and> tbl_payroll_periods db' = [period_sep]
     \<and> \<not> IsProcessed period_sep"
proof -
  let ?s = "NewPayrollService\<lparr>employeeProfileRepo := EmployeeProfileMock_missing 2\<rparr>"
  have 1: "GetPayrollPeriodByID (PayrollService.payrollPeriodRepo ?s) (tbl_payroll_periods db_three) 1
             = Inr (Some period_sep)"
    using gorm_First_period_sep
    by (simp add: NewPayrollService_def NewPayrollPeriodGormRepository_def
          PayrollPeriodGorm_GetPayrollPeriodByID_def db_three_def db_empty_def)
  have 2: "\<not> IsProcessed period_sep" by (simp add: period_sep_def)
  have 3: "GetAllEmployeeProfiles (employeeProfileRepo ?s) (tbl_employee_profiles db_three)
             = Inr [profile_of 1 1 5000000, profile_of 2 2 4000000, profile_of 3 3 3000000]"
    by (simp add: EmployeeProfileMock_missing_def EmployeeProfileGorm_GetAllEmployeeProfiles_def
          gorm_Find_def db_three_def db_empty_def)
  have 4: "profile_of 2 2 4000000 \<in> set [profile_of 1 1 5000000, profile_of 2 2 4000000, profile_of 3 3 3000000]"
    by simp
  have 5: "CalculatePayslip ?s 0 db_three (EmployeeProfile.UserID (profile_of 2 2 4000000)) period_sep 9 ''10.0.0.1''
             = Inl ErrEmployeeProfileNotFound"
    by (simp add: CalculatePayslip_def EmployeeProfileMock_missing_def profile_of_def)
  obtain err db' where
    "RunPayroll ?s 0 db_three 1 9 ''10.0.0.1'' ''r3'' = (Some err, db')"
    "tbl_payslips db' = tbl_payslips db_three"
    "tbl_attendances db' = tbl_attendances db_three"
    "tbl_overtimes db' = tbl_overtimes db_three"
    "tbl_reimbursements db' = tbl_reimbursements db_three"
    "tbl_employee_profiles db' = tbl_employee_profiles db_three"
    "tbl_payroll_periods db' = tbl_payroll_periods db_three"
    using C2_calculation_failure_aborts_run [OF 1 2 3 4 5, of "''r3''"] by blast
  then show ?thesis
    using 2 by (intro exI[of _ err] exI[of _ db']) (simp add: db_three_def db_empty_def)
qed

text \<open>
  C3. For every payroll period: \<open>RunPayroll\<close> fails with the not-found error when the
  lookup of the period returns none (over the database: when no stored period has the
  identifier), and with the already-processed error when the period it returns is
  processed; in both cases, whatever the repositories are, the database is returned as
  it was, audit entries included. After a successful run over the database, a second
  run for the same period fails with the already-processed error and leaves the
  database exactly as the first run left it.
\<close>

theorem C3_rerun_rejected:
  "(GetPayrollPeriodByID (PayrollService.payrollPeriodRepo s) (tbl_payroll_periods db) periodID = Inr None \<longrightarrow>
      RunPayroll s now db periodID processedBy ipAddress requestID = (Some ErrPayrollPeriodNotFound, db))
   \<and> (GetPayrollPeriodByID (PayrollService.payrollPeriodRepo s) (tbl_payroll_periods db) periodID
         = Inr (Some period) \<and> IsProcessed period \<longrightarrow>
      RunPayroll s now db periodID processedBy ipAddress requestID = (Some ErrPayrollAlreadyProcessed, db))
   \<and> ((\<forall>p \<in> set (tbl_payroll_periods db). ID p \<noteq> periodID) \<longrightarrow>
      RunPayroll NewPayrollService now db periodID processedBy ipAddress requestID
        = (Some ErrPayrollPeriodNotFound, db))
   \<and> (RunPayroll NewPayrollService now db periodID processedBy ipAddress requestID = (None, db_first) \<longrightarrow>
      RunPayroll NewPayrollService now_second db_first periodID processedBy_second ipAddress_second requestID_second
        = (Some ErrPayrollAlreadyProcessed, db_first))"
proof (intro conjI impI)
  assume "GetPayrollPeriodByID (PayrollService.payrollPeriodRepo s) (tbl_payroll_periods db) periodID = Inr None"
  then show "RunPayroll s now db periodID processedBy ipAddress requestID = (Some ErrPayrollPeriodNotFound, db)"
    by (simp add: RunPayroll_unfold)
next
  assume "GetPayrollPeriodByID (PayrollService.payrollPeriodRepo s) (tbl_payroll_periods db) periodID
         = Inr (Some period) \<and> IsProcessed period"
  then show "RunPayroll s now db periodID processedBy ipAddress requestID = (Some ErrPayrollAlreadyProcessed, db)"
    by (simp add: RunPayroll_unfold)
next
  assume "\<forall>p \<in> set (tbl_payroll_periods db). ID p \<noteq> periodID"
  then have "gorm_First (\<lambda>p. ID p = periodID) (tbl_payroll_periods db) = None"
    by (simp add: gorm_First_None)
  then show "RunPayroll NewPayrollService now db periodID processedBy ipAddress requestID
        = (Some ErrPayrollPeriodNotFound, db)"
    by (simp add: RunPayroll_gorm)
next
  assume run: "RunPayroll NewPayrollService now db periodID processedBy ipAddress requestID = (None, db_first)"
  then obtain period' where f: "gorm_First (\<lambda>p. ID p = periodID) (tbl_payroll_periods db) = Some period'"
    and np: "\<not> IsProcessed period'"
    by (cases "gorm_First (\<lambda>p. ID p = periodID) (tbl_payroll_periods db)")
       (auto simp: RunPayroll_gorm split: if_splits)
  from RunPayroll_gorm_success[OF f np, of now processedBy ipAddress requestID] run
  obtain pp where "PayrollPeriodGorm_MarkPayrollPeriodAsProcessedTx now (tbl_payroll_periods db) periodID = Inr pp"
    and "tbl_payroll_periods db_first = pp"
    by auto
  with Mark_gorm_processed obtain q where
    "gorm_First (\<lambda>p. ID p = periodID) (tbl_payroll_periods db_first) = Some q" "IsProcessed q"
    by blast
  then show "RunPayroll NewPayrollService now_second db_first periodID processedBy_second ipAddress_second requestID_second
        = (Some ErrPayrollAlreadyProcessed, db_first)"
    by (simp add: RunPayroll_gorm)
qed

text \<open>
  With the period of September stored and no employee: the run for an unknown period is
  refused, the first run for the stored period succeeds, the second is refused and
  changes nothing.
\<close>

theorem C3_rerun_rejected_witness:
  "RunPayroll NewPayrollService 0 db_period 7 9 ''10.0.0.1'' ''r4'' = (Some ErrPayrollPeriodNotFound, db_period)
   \<and> fst (RunPayroll NewPayrollService 0 db_period 1 9 ''10.0.0.1'' ''r4'') = None
   \<and> RunPayroll NewPayrollService 5 (snd (RunPayroll NewPayrollService 0 db_period 1 9 ''10.0.0.1'' ''r4''))
        1 9 ''10.0.0.1'' ''r5''
      = (Some ErrPayrollAlreadyProcessed, snd (RunPayroll NewPayrollService 0 db_period 1 9 ''10.0.0.1'' ''r4''))"
proof -
  have nf: "\<forall>p \<in> set (tbl_payroll_periods db_period). ID p \<noteq> 7"
    by (simp add: db_period_def db_empty_def period_sep_def)
  have f: "gorm_First (\<lambda>p. ID p = 1) (tbl_payroll_periods db_period) = Some period_sep"
    using gorm_First_period_sep by (simp add: db_period_def db_empty_def)
  have np: "\<not> IsProcessed period_sep" by (simp add: period_sep_def)
  from RunPayroll_gorm_success[OF f np, of 0 9 "''10.0.0.1''" "''r4''"]
  obtain db1 where run: "RunPayroll NewPayrollService 0 db_period 1 9 ''10.0.0.1'' ''r4'' = (None, db1)"
    by blast
  show ?thesis
    using C3_rerun_rejected [where s = NewPayrollService and db = db_period and periodID = 7 and now = 0
            and processedBy = 9 and ipAddress = "''10.0.0.1''" and requestID = "''r4''"]
          C3_rerun_rejected [where s = NewPayrollService and db = db_period and periodID = 1 and now = 0
            and processedBy = 9 and ipAddress = "''10.0.0.1''" and requestID = "''r4''" and db_first = db1
            and now_second = 5 and processedBy_second = 9 and ipAddress_second = "''10.0.0.1''"
            and requestID_second = "''r5''"]
          nf run
    by simp
qed




text \<open>
  C5. For every attendance record whose date is inside the period, its contribution to the
  total of worked hours is 8 when check-out minus check-in is more than 8 hours, 0 when
  it is less than 8 hours, and the value itself, 8, when it is exactly 8 hours: the total
  is the sum of these contributions over the records in the period. In particular a
  record of 10 hours adds exactly 8 and a record of 5 hours adds 0.
\<close>

theorem C5_worked_hours_clamp:
  "totalWorkedHours_loop period attendances 0 =
     (\<Sum>att \<leftarrow> filter (\<lambda>att. StartDate period \<le> Attendance.Date att \<and> Attendance.Date att \<le> EndDate period) attendances.
        (if Duration_Hours (Sub (CheckOutTime att) (CheckInTime att)) > 8 then 8
         else if Duration_Hours (Sub (CheckOutTime att) (CheckInTime att)) < 8 then 0
         else Duration_Hours (Sub (CheckOutTime att) (CheckInTime att))))
   \<and> (StartDate period \<le> Attendance.Date att \<and> Attendance.Date att \<le> EndDate period \<longrightarrow>
        (Duration_Hours (Sub (CheckOutTime att) (CheckInTime att)) > 8 \<longrightarrow>
           totalWorkedHours_loop period (attendances @ [att]) 0 = totalWorkedHours_loop period attendances 0 + 8) \<and>
        (Duration_Hours (Sub (CheckOutTime att) (CheckInTime att)) < 8 \<longrightarrow>
           totalWorkedHours_loop period (attendances @ [att]) 0 = totalWorkedHours_loop period attendances 0 + 0) \<and>
        (Duration_Hours (Sub (CheckOutTime att) (CheckInTime att)) = 8 \<longrightarrow>
           totalWorkedHours_loop period (attendances @ [att]) 0 = totalWorkedHours_loop period attendances 0 + 8) \<and>
        (Sub (CheckOutTime att) (CheckInTime att) = 10 * Hour \<longrightarrow>
           totalWorkedHours_loop period (attendances @ [att]) 0 = totalWorkedHours_loop period attendances 0 + 8) \<and>
        (Sub (CheckOutTime att) (CheckInTime att) = 5 * Hour \<longrightarrow>
           totalWorkedHours_loop period (attendances @ [att]) 0 = totalWorkedHours_loop period attendances 0 + 0))"
proof -
  have h10: "Duration_Hours (10 * Hour) = 10" by (simp add: Duration_Hours_def Hour_def)
  have h5: "Duration_Hours (5 * Hour) = 5" by (simp add: Duration_Hours_def Hour_def)
  show ?thesis
    by (simp add: totalWorkedHours_loop_sum h10 h5)
qed

text \<open>A full day followed by a day of 10 hours gives 16 hours, followed by a day of 5 hours gives 8.\<close>

theorem C5_worked_hours_clamp_witness:
  "totalWorkedHours_loop period_sep [attendance_on 1 1 20332 8, attendance_on 2 1 20333 10] 0 = 16 \<and>
   totalWorkedHours_loop period_sep [attendance_on 1 1 20332 8, attendance_on 3 1 20333 5] 0 = 8"
proof -
  have a: "totalWorkedHours_loop period_sep [attendance_on 1 1 20332 8] 0 = 8"
    by (simp add: period_sep_def attendance_on_def After_def Before_def Equal_def Sub_def
          Duration_Hours_def Hour_def RegularWorkingHoursPerDay_def)
  have r: "StartDate period_sep \<le> Attendance.Date (attendance_on 2 1 20333 10) \<and>
           Attendance.Date (attendance_on 2 1 20333 10) \<le> EndDate period_sep"
          "StartDate period_sep \<le> Attendance.Date (attendance_on 3 1 20333 5) \<and>
           Attendance.Date (attendance_on 3 1 20333 5) \<le> EndDate period_sep"
    by (simp_all add: period_sep_def attendance_on_def Hour_def)
  have s: "Sub (CheckOutTime (attendance_on 2 1 20333 10)) (CheckInTime (attendance_on 2 1 20333 10)) = 10 * Hour"
          "Sub (CheckOutTime (attendance_on 3 1 20333 5)) (CheckInTime (attendance_on 3 1 20333 5)) = 5 * Hour"
    by (simp_all add: attendance_on_def Sub_def Hour_def)
  show ?thesis
    using C5_worked_hours_clamp [of period_sep "[attendance_on 1 1 20332 8]" "attendance_on 2 1 20333 10"]
          C5_worked_hours_clamp [of period_sep "[attendance_on 1 1 20332 8]" "attendance_on 3 1 20333 5"]
          r s a
    by simp
qed



text \<open>
  C7. For every call of \<open>SubmitAttendance\<close> whose check-in falls on a Saturday or a Sunday,
  whatever the repositories are, the call fails with the weekend error and the database
  is as before: no row of attendance and no audit entry is written, and the result does
  not depend on any lookup.
\<close>

theorem C7_weekend_attendance_rejected:
  "Weekday checkInTime = Saturday \<or> Weekday checkInTime = Sunday \<Longrightarrow>
     SubmitAttendance s now db userID checkInTime checkOutTime ipAddress requestID
       = (Inl ErrWeekendAttendance, db)"
  by (simp add: SubmitAttendance_def)

text \<open>The check-in of Saturday 2025-08-16, 09:00.\<close>

theorem C7_weekend_attendance_rejected_witness:
  "Weekday ((20316 * 24 + 9) * Hour) = Saturday \<and>
   SubmitAttendance NewAttendanceService 0 db_empty 1 ((20316 * 24 + 9) * Hour)
       ((20316 * 24 + 17) * Hour) ''127.0.0.1'' ''req-123''
     = (Inl ErrWeekendAttendance, db_empty)"
proof -
  have sat: "Weekday ((20316 * 24 + 9) * Hour) = Saturday"
    by (simp add: Weekday_def FormatDate_def Hour_def)
  then have h: "Weekday ((20316 * 24 + 9) * Hour) = Saturday \<or> Weekday ((20316 * 24 + 9) * Hour) = Sunday"
    by simp
  show ?thesis
    using sat C7_weekend_attendance_rejected [OF h, of NewAttendanceService 0 db_empty 1 "(20316 * 24 + 17) * Hour" "''127.0.0.1''" "''req-123''"]
    by simp
qed

text \<open>
  C8. For every successful run of \<open>RunPayroll\<close> over the database, where the user
  identifiers of the profiles are distinct (the unique index of the table) and no payslip
  of the period existed before the run: every employee that has a salary profile has
  exactly one payslip for the period afterwards, with the salary of the profile as base
  salary; for an employee with no attendance, overtime or reimbursement record in the
  period, the prorated salary, the overtime pay, the total reimbursement and the take-home
  pay of that payslip are all 0.
\<close>

theorem C8_every_profile_gets_one_payslip:
  assumes "RunPayroll NewPayrollService now db periodID processedBy ipAddress requestID = (None, db')"
    and "distinct (map EmployeeProfile.UserID (tbl_employee_profiles db))"
    and "\<forall>p \<in> set (tbl_payslips db). Payslip.PayrollPeriodID p \<noteq> periodID"
    and "emp \<in> set (tbl_employee_profiles db)"
    and "gorm_First (\<lambda>p. ID p = periodID) (tbl_payroll_periods db) = Some period"
  shows "\<exists>payslip.
     filter (\<lambda>p. Payslip.UserID p = EmployeeProfile.UserID emp \<and> Payslip.PayrollPeriodID p = periodID)
       (tbl_payslips db') = [payslip]
     \<and> BaseSalary payslip = Salary emp
     \<and> (filter (\<lambda>x. Attendance.UserID x = EmployeeProfile.UserID emp
              \<and> FormatDate (Attendance.Date x) \<ge> FormatDate (StartDate period)
              \<and> FormatDate (Attendance.Date x) \<le> FormatDate (EndDate period)) (tbl_attendances db) = []
         \<and> filter (\<lambda>x. Overtime.UserID x = EmployeeProfile.UserID emp
              \<and> FormatDate (Overtime.Date x) \<ge> FormatDate (StartDate period)
              \<and> FormatDate (Overtime.Date x) \<le> FormatDate (EndDate period)) (tbl_overtimes db) = []
         \<and> filter (\<lambda>x. Reimbursement.UserID x = EmployeeProfile.UserID emp
              \<and> CreatedAt x \<ge> StartDate period \<and> CreatedAt x \<le> EndDate period)
              (tbl_reimbursements db) = []
         \<longrightarrow> ProratedSalary payslip = 0 \<and> OvertimePay payslip = 0
             \<and> TotalReimbursement payslip = 0 \<and> TotalTakeHomePay payslip = 0)"
proof -
  let ?R = "\<lambda>p emp. \<exists>payslip atts ots rbs.
          CalculatePayslip NewPayrollService now db (EmployeeProfile.UserID emp) period processedBy ipAddress
            = Inr (payslip, atts, ots, rbs) \<and> p = payslip\<lparr>ID := ID p\<rparr>"
  have np: "\<not> IsProcessed period"
    using assms(1,5) by (auto simp: RunPayroll_gorm)
  have pid: "ID period = periodID" using gorm_First_Some[OF assms(5)] by simp
  from RunPayroll_gorm_success[OF assms(5) np, of now processedBy ipAddress requestID] assms(1)
  obtain ps where ps: "tbl_payslips db' = tbl_payslips db @ ps"
    and rel: "list_all2 ?R ps (tbl_employee_profiles db)"
    by auto
  have key: "\<And>(p::Payslip) (e::EmployeeProfile). ?R p e \<Longrightarrow>
      Payslip.UserID p = EmployeeProfile.UserID e \<and> Payslip.PayrollPeriodID p = periodID"
  proof -
    fix p :: Payslip and e :: EmployeeProfile assume "?R p e"
    then obtain payslip atts ots rbs where
      c: "CalculatePayslip NewPayrollService now db (EmployeeProfile.UserID e) period processedBy ipAddress
            = Inr (payslip, atts, ots, rbs)" and e: "p = payslip\<lparr>ID := ID p\<rparr>"
      by blast
    from CalculatePayslip_gorm_fields[OF c] payslip_fields_of_update[OF e] pid
    show "Payslip.UserID p = EmployeeProfile.UserID e \<and> Payslip.PayrollPeriodID p = periodID"
      by auto
  qed
  then have key1: "\<And>(p::Payslip) (e::EmployeeProfile). ?R p e \<Longrightarrow> Payslip.UserID p = EmployeeProfile.UserID e" by blast
  from list_all2_filter_unique[of ?R ps "tbl_employee_profiles db" EmployeeProfile.UserID emp Payslip.UserID,
        OF rel assms(2) assms(4) key1]
  obtain p where fp: "filter (\<lambda>p. Payslip.UserID p = EmployeeProfile.UserID emp) ps = [p]"
    and rp: "?R p emp"
    by blast
  have allps: "\<forall>q \<in> set ps. Payslip.PayrollPeriodID q = periodID"
  proof
    fix q assume "q \<in> set ps"
    then obtain i where i: "i < length ps" "q = ps ! i" by (auto simp: in_set_conv_nth)
    have "?R (ps ! i) (tbl_employee_profiles db ! i)"
      using list_all2_nthD[OF rel i(1)] .
    then show "Payslip.PayrollPeriodID q = periodID" unfolding i(2) using key by blast
  qed
  have f1: "filter (\<lambda>p. Payslip.UserID p = EmployeeProfile.UserID emp \<and> Payslip.PayrollPeriodID p = periodID)
              (tbl_payslips db) = []"
    using assms(3) by (simp add: filter_empty_conv)
  have f2: "filter (\<lambda>p. Payslip.UserID p = EmployeeProfile.UserID emp \<and> Payslip.PayrollPeriodID p = periodID) ps
          = filter (\<lambda>p. Payslip.UserID p = EmployeeProfile.UserID emp) ps"
    using allps by (intro filter_cong) auto
  have filt: "filter (\<lambda>p. Payslip.UserID p = EmployeeProfile.UserID emp \<and> Payslip.PayrollPeriodID p = periodID)
       (tbl_payslips db') = [p]"
    unfolding ps filter_append f1 f2 fp by simp
  from rp obtain payslip atts ots rbs where
    c: "CalculatePayslip NewPayrollService now db (EmployeeProfile.UserID emp) period processedBy ipAddress
          = Inr (payslip, atts, ots, rbs)" and e: "p = payslip\<lparr>ID := ID p\<rparr>"
    by blast
  note flds = payslip_fields_of_update[OF e]
  from CalculatePayslip_gorm_fields[OF c] obtain empProfile where
    ep: "gorm_First (\<lambda>p. EmployeeProfile.UserID p = EmployeeProfile.UserID emp) (tbl_employee_profiles db)
           = Some empProfile"
    and cf: "BaseSalary payslip = Salary empProfile"
      "ProratedSalary payslip =
          (if totalPossibleWorkingHours_loop (StartDate period) (EndDate period) 0 > 0
           then Salary empProfile / totalPossibleWorkingHours_loop (StartDate period) (EndDate period) 0
                  * totalWorkedHours_loop period
                      (filter (\<lambda>x. Attendance.UserID x = EmployeeProfile.UserID emp
                           \<and> FormatDate (Attendance.Date x) \<ge> FormatDate (StartDate period)
                           \<and> FormatDate (Attendance.Date x) \<le> FormatDate (EndDate period))
                         (tbl_attendances db)) 0
           else 0)"
      "OvertimePay payslip =
          sum_list (map Overtime.Hours
            (filter (\<lambda>x. Overtime.UserID x = EmployeeProfile.UserID emp
                 \<and> FormatDate (Overtime.Date x) \<ge> FormatDate (StartDate period)
                 \<and> FormatDate (Overtime.Date x) \<le> FormatDate (EndDate period))
               (tbl_overtimes db))) *
          (if totalPossibleWorkingHours_loop (StartDate period) (EndDate period) 0 > 0
           then Salary empProfile / totalPossibleWorkingHours_loop (StartDate period) (EndDate period) 0
           else 0) * 2"
      "TotalReimbursement payslip =
          sum_list (map Amount
            (filter (\<lambda>x. Reimbursement.UserID x = EmployeeProfile.UserID emp \<and> CreatedAt x \<ge> StartDate period
                 \<and> CreatedAt x \<le> EndDate period) (tbl_reimbursements db)))"
      "TotalTakeHomePay payslip =
          ProratedSalary payslip + OvertimePay payslip + TotalReimbursement payslip"
    by blast
  have "empProfile \<in> set (filter (\<lambda>y. EmployeeProfile.UserID y = EmployeeProfile.UserID emp)
                              (tbl_employee_profiles db))"
    using gorm_First_Some[OF ep] by simp
  then have same: "empProfile = emp"
    unfolding filter_unique_key[of EmployeeProfile.UserID, OF assms(2) assms(4)] by simp
  have base: "BaseSalary p = Salary emp" using flds cf(1) same by simp
  have zero: "filter (\<lambda>x. Attendance.UserID x = EmployeeProfile.UserID emp
              \<and> FormatDate (Attendance.Date x) \<ge> FormatDate (StartDate period)
              \<and> FormatDate (Attendance.Date x) \<le> FormatDate (EndDate period)) (tbl_attendances db) = []
         \<and> filter (\<lambda>x. Overtime.UserID x = EmployeeProfile.UserID emp
              \<and> FormatDate (Overtime.Date x) \<ge> FormatDate (StartDate period)
              \<and> FormatDate (Overtime.Date x) \<le> FormatDate (EndDate period)) (tbl_overtimes db) = []
         \<and> filter (\<lambda>x. Reimbursement.UserID x = EmployeeProfile.UserID emp
              \<and> CreatedAt x \<ge> StartDate period \<and> CreatedAt x \<le> EndDate period)
              (tbl_reimbursements db) = []
         \<longrightarrow> ProratedSalary p = 0 \<and> OvertimePay p = 0
             \<and> TotalReimbursement p = 0 \<and> TotalTakeHomePay p = 0"
    using flds cf(2,3,4,5) by simp
  show ?thesis
    using filt base zero by (intro exI[of _ p]) blast
qed

text \<open>
  In the scenario of September the second employee submitted nothing: the run succeeds
  and the one payslip of that employee has the base salary 4,000,000 and zeros.
\<close>

theorem C8_every_profile_gets_one_payslip_witness:
  "\<exists>payslip.
     filter (\<lambda>p. Payslip.UserID p = 2 \<and> Payslip.PayrollPeriodID p = 1)
       (tbl_payslips (snd (RunPayroll NewPayrollService 0 db_sep 1 9 ''10.0.0.1'' ''r6''))) = [payslip]
     \<and> fst (RunPayroll NewPayrollService 0 db_sep 1 9 ''10.0.0.1'' ''r6'') = None
     \<and> BaseSalary payslip = 4000000
     \<and> ProratedSalary payslip = 0 \<and> OvertimePay payslip = 0
     \<and> TotalReimbursement payslip = 0 \<and> TotalTakeHomePay payslip = 0"
proof -
  have np: "\<not> IsProcessed period_sep" by (simp add: period_sep_def)
  from RunPayroll_gorm_success[OF gorm_First_db_sep_period np, of 0 9 "''10.0.0.1''" "''r6''"]
  obtain db' where run: "RunPayroll NewPayrollService 0 db_sep 1 9 ''10.0.0.1'' ''r6'' = (None, db')"
    by blast
  have d: "distinct (map EmployeeProfile.UserID (tbl_employee_profiles db_sep))"
    by (simp add: db_sep_def db_empty_def profile_of_def)
  have n: "\<forall>p \<in> set (tbl_payslips db_sep). Payslip.PayrollPeriodID p \<noteq> 1"
    by (simp add: db_sep_def db_empty_def)
  have e: "profile_of 2 2 4000000 \<in> set (tbl_employee_profiles db_sep)"
    by (simp add: db_sep_def db_empty_def)
  have z: "filter (\<lambda>x. Attendance.UserID x = EmployeeProfile.UserID (profile_of 2 2 4000000)
              \<and> FormatDate (Attendance.Date x) \<ge> FormatDate (StartDate period_sep)
              \<and> FormatDate (Attendance.Date x) \<le> FormatDate (EndDate period_sep)) (tbl_attendances db_sep) = []"
      "filter (\<lambda>x. Overtime.UserID x = EmployeeProfile.UserID (profile_of 2 2 4000000)
              \<and> FormatDate (Overtime.Date x) \<ge> FormatDate (StartDate period_sep)
              \<and> FormatDate (Overtime.Date x) \<le> FormatDate (EndDate period_sep)) (tbl_overtimes db_sep) = []"
      "filter (\<lambda>x. Reimbursement.UserID x = EmployeeProfile.UserID (profile_of 2 2 4000000)
              \<and> CreatedAt x \<ge> StartDate period_sep \<and> CreatedAt x \<le> EndDate period_sep)
              (tbl_reimbursements db_sep) = []"
    by (simp_all add: db_sep_def db_empty_def profile_of_def attendance_on_def overtime_on_def
          reimbursement_of_def)
  have u: "EmployeeProfile.UserID (profile_of 2 2 4000000) = 2"
          "Salary (profile_of 2 2 4000000) = 4000000"
    by (simp_all add: profile_of_def)
  from C8_every_profile_gets_one_payslip[OF run d n e gorm_First_db_sep_period] z
  obtain payslip where
    "filter (\<lambda>p. Payslip.UserID p = EmployeeProfile.UserID (profile_of 2 2 4000000) \<and> Payslip.PayrollPeriodID p = 1)
       (tbl_payslips db') = [payslip]"
    "BaseSalary payslip = Salary (profile_of 2 2 4000000)"
    "ProratedSalary payslip = 0" "OvertimePay payslip = 0"
    "TotalReimbursement payslip = 0" "TotalTakeHomePay payslip = 0"
    by blast
  then show ?thesis
    unfolding u run by (intro exI[of _ payslip]) simp
qed

text \<open>
  C9. For every call of \<open>CreatePayrollPeriod\<close>: the period is persisted exactly when the
  end date is strictly after the start date and no stored period overlaps the new range;
  a request that violates either condition fails with the database as before; so when
  the stored periods satisfy the invariant (each starts before it ends, no two overlap),
  they satisfy it after the call.
\<close>

theorem C9_payroll_period_invariant:
  "(case PayrollPeriodService_CreatePayrollPeriod NewPayrollPeriodService now db startDate endDate
           createdBy ipAddress requestID of
      (Inl err, db') \<Rightarrow>
         db' = db \<and>
         \<not> (startDate < endDate \<and>
            (\<forall>q \<in> set (tbl_payroll_periods db). \<not> (StartDate q \<le> endDate \<and> EndDate q \<ge> startDate)))
    | (Inr period, db') \<Rightarrow>
         startDate < endDate \<and>
         (\<forall>q \<in> set (tbl_payroll_periods db). \<not> (StartDate q \<le> endDate \<and> EndDate q \<ge> startDate)) \<and>
         tbl_payroll_periods db' = tbl_payroll_periods db @ [period] \<and>
         StartDate period = startDate \<and> EndDate period = endDate \<and> \<not> IsProcessed period)
   \<and> (stored_periods_ok (tbl_payroll_periods db) \<longrightarrow>
        stored_periods_ok (tbl_payroll_periods (snd
          (PayrollPeriodService_CreatePayrollPeriod NewPayrollPeriodService now db startDate endDate
             createdBy ipAddress requestID))))"
proof -
  let ?period = "\<lparr>ID = uuid_New (tbl_payroll_periods db), CreatedAt = now, UpdatedAt = now,
               CreatedBy = createdBy, UpdatedBy = createdBy, IPAddress = ipAddress,
               StartDate = startDate, EndDate = endDate, IsProcessed = False, ProcessedAt = None\<rparr>"
  obtain a where a: "CreateAuditLog NewAuditLogGormRepository now (tbl_audit_logs db) (Some createdBy)
                  ''CREATE'' ''PayrollPeriod'' (Some (ID ?period)) AnyNil (AnyPayrollPeriod ?period)
                  ipAddress requestID = Inr (None, tbl_audit_logs db @ [a])"
    using CreateAuditLog_gorm[OF json_Marshal.simps(1) json_Marshal.simps(6)] by blast
  consider (bad) "\<not> startDate < endDate"
    | (overlap) "startDate < endDate"
        "filter (\<lambda>p. StartDate p \<le> endDate \<and> EndDate p \<ge> startDate) (tbl_payroll_periods db) \<noteq> []"
    | (good) "startDate < endDate"
        "filter (\<lambda>p. StartDate p \<le> endDate \<and> EndDate p \<ge> startDate) (tbl_payroll_periods db) = []"
    by blast
  then show ?thesis
  proof cases
    case bad
    then show ?thesis by (simp add: CreatePayrollPeriod_gorm)
  next
    case overlap
    then show ?thesis by (auto simp: CreatePayrollPeriod_gorm filter_empty_conv)
  next
    case good
    then have no: "\<forall>q \<in> set (tbl_payroll_periods db). \<not> (StartDate q \<le> endDate \<and> EndDate q \<ge> startDate)"
      by (simp add: filter_empty_conv)
    then have dis: "\<forall>q \<in> set (tbl_payroll_periods db). disjoint_periods q ?period"
      by (auto simp: disjoint_periods_def)
    have r: "PayrollPeriodService_CreatePayrollPeriod NewPayrollPeriodService now db startDate endDate
           createdBy ipAddress requestID
         = (Inr ?period, db\<lparr>tbl_payroll_periods := tbl_payroll_periods db @ [?period],
                               tbl_audit_logs := tbl_audit_logs db @ [a]\<rparr>)"
      using good a by (simp add: CreatePayrollPeriod_gorm Let_def)
    show ?thesis
      unfolding r using good(1) no dis
      by (simp add: stored_periods_ok_def non_overlapping_append)
  qed
qed

text \<open>
  With the period 2025-09-01 to 2025-09-12 stored: a period from 09-15 to 09-26 is added,
  one from 09-12 to 09-19 is refused as overlapping, one that ends on its start date is
  refused.
\<close>

theorem C9_payroll_period_invariant_witness:
  "stored_periods_ok (tbl_payroll_periods db_period)
   \<and> stored_periods_ok (tbl_payroll_periods (snd
        (PayrollPeriodService_CreatePayrollPeriod NewPayrollPeriodService 0 db_period
           (20346 * (24 * Hour)) (20357 * (24 * Hour)) 9 ''10.0.0.1'' ''r2'')))
   \<and> length (tbl_payroll_periods (snd
        (PayrollPeriodService_CreatePayrollPeriod NewPayrollPeriodService 0 db_period
           (20346 * (24 * Hour)) (20357 * (24 * Hour)) 9 ''10.0.0.1'' ''r2''))) = 2
   \<and> PayrollPeriodService_CreatePayrollPeriod NewPayrollPeriodService 0 db_period
           (20343 * (24 * Hour)) (20350 * (24 * Hour)) 9 ''10.0.0.1'' ''r2''
        = (Inl ErrOverlappingPayrollPeriod, db_period)
   \<and> PayrollPeriodService_CreatePayrollPeriod NewPayrollPeriodService 0 db_period
           (20346 * (24 * Hour)) (20346 * (24 * Hour)) 9 ''10.0.0.1'' ''r2''
        = (Inl ErrEndDateNotAfterStartDate, db_period)"
proof -
  have ok: "stored_periods_ok (tbl_payroll_periods db_period)"
    by (simp add: stored_periods_ok_def db_period_def db_empty_def period_sep_def Hour_def)
  have len: "length (tbl_payroll_periods (snd
        (PayrollPeriodService_CreatePayrollPeriod NewPayrollPeriodService 0 db_period
           (20346 * (24 * Hour)) (20357 * (24 * Hour)) 9 ''10.0.0.1'' ''r2''))) = 2"
    by (simp add: CreatePayrollPeriod_gorm db_period_def db_empty_def period_sep_def Hour_def
          CreateAuditLog_def Let_def split: sum.splits prod.splits)
  have e1: "PayrollPeriodService_CreatePayrollPeriod NewPayrollPeriodService 0 db_period
           (20343 * (24 * Hour)) (20350 * (24 * Hour)) 9 ''10.0.0.1'' ''r2''
        = (Inl ErrOverlappingPayrollPeriod, db_period)"
    by (simp add: CreatePayrollPeriod_gorm db_period_def db_empty_def period_sep_def Hour_def)
  have e2: "PayrollPeriodService_CreatePayrollPeriod NewPayrollPeriodService 0 db_period
           (20346 * (24 * Hour)) (20346 * (24 * Hour)) 9 ''10.0.0.1'' ''r2''
        = (Inl ErrEndDateNotAfterStartDate, db_period)"
    by (simp add: CreatePayrollPeriod_gorm)
  show ?thesis
    using C9_payroll_period_invariant [where now = 0 and db = db_period
          and startDate = "20346 * (24 * Hour)" and endDate = "20357 * (24 * Hour)"
          and createdBy = 9 and ipAddress = "''10.0.0.1''" and requestID = "''r2''"]
      ok len e1 e2
    by simp
qed

text \<open>
  C10. The audit helper \<open>CreateAuditLog\<close> reads \<open>*userID\<close> to fill \<open>CreatedBy\<close> and
  \<open>UpdatedBy\<close> of every entry it builds, with no test for nil, although the actor field of
  the entry is nullable. So, for every repository, it is free of panics on all snapshots
  exactly when \<open>userID\<close> is not nil: with a nil \<open>userID\<close> it panics as soon as both
  snapshots encode, and with a non-nil \<open>userID\<close> it always returns, over the database
  appending one entry whose actor, creator and updater are that user. The only way past
  the dereference is the error of \<open>json.Marshal\<close>, returned before the entry is built and
  leaving the entries as they were; hence a nil \<open>userID\<close> never produces an entry. Every
  call in the core services passes a non-nil actor: over the database none of
  \<open>RunPayroll\<close>, \<open>SubmitAttendance\<close>, \<open>SubmitOvertime\<close>, \<open>SubmitReimbursement\<close>,
  \<open>CreatePayrollPeriod\<close> and \<open>MarkPayrollPeriodAsProcessed\<close> panics, and every audit
  entry they add has the acting user as its actor, never none.
\<close>

theorem C10_audit_actor_never_nil:
  "((\<forall>old new. CreateAuditLog repo now rows userID action entityName entityID old new ipAddress requestID
        \<noteq> Inl PanicNilDereference) = (userID \<noteq> None))
   \<and> (json_Marshal oldValue = Inr oldJSON \<and> json_Marshal newValue = Inr newJSON \<longrightarrow>
        CreateAuditLog repo now rows None action entityName entityID oldValue newValue ipAddress requestID
          = Inl PanicNilDereference
        \<and> (\<exists>a. CreateAuditLog NewAuditLogGormRepository now rows (Some u) action entityName entityID
               oldValue newValue ipAddress requestID = Inr (None, rows @ [a])
             \<and> AuditLog.UserID a = Some u \<and> CreatedBy a = u \<and> UpdatedBy a = u))
   \<and> (json_Marshal unencodable = Inl err \<longrightarrow>
        CreateAuditLog repo now rows userID action entityName entityID unencodable newValue ipAddress
          requestID = Inr (Some err, rows)
        \<and> (json_Marshal oldValue = Inr oldJSON \<longrightarrow>
             CreateAuditLog repo now rows userID action entityName entityID oldValue unencodable ipAddress
               requestID = Inr (Some err, rows)))
   \<and> (CreateAuditLog repo now rows None action entityName entityID oldValue newValue ipAddress requestID
          = Inl PanicNilDereference
        \<or> (\<exists>e. CreateAuditLog repo now rows None action entityName entityID oldValue newValue ipAddress
               requestID = Inr (Some e, rows)))
   \<and> (\<exists>result. CreateAuditLog repo now rows (Some u) action entityName entityID oldValue newValue
          ipAddress requestID = Inr result)
   \<and> fst (RunPayroll NewPayrollService now db periodID u ipAddress requestID) \<noteq> Some PanicNilDereference
   \<and> audit_appended_by u db (snd (RunPayroll NewPayrollService now db periodID u ipAddress requestID))
   \<and> fst (SubmitAttendance NewAttendanceService now db u checkInTime checkOutTime ipAddress requestID)
        \<noteq> Inl PanicNilDereference
   \<and> audit_appended_by u db
        (snd (SubmitAttendance NewAttendanceService now db u checkInTime checkOutTime ipAddress requestID))
   \<and> fst (SubmitOvertime NewOvertimeService now db u date hours ipAddress requestID)
        \<noteq> Inl PanicNilDereference
   \<and> audit_appended_by u db
        (snd (SubmitOvertime NewOvertimeService now db u date hours ipAddress requestID))
   \<and> fst (SubmitReimbursement NewReimbursementService now db u amount description ipAddress requestID)
        \<noteq> Inl PanicNilDereference
   \<and> audit_appended_by u db
        (snd (SubmitReimbursement NewReimbursementService now db u amount description ipAddress requestID))
   \<and> fst (PayrollPeriodService_CreatePayrollPeriod NewPayrollPeriodService now db startDate endDate
             u ipAddress requestID) \<noteq> Inl PanicNilDereference
   \<and> audit_appended_by u db
        (snd (PayrollPeriodService_CreatePayrollPeriod NewPayrollPeriodService now db startDate endDate
             u ipAddress requestID))
   \<and> fst (PayrollPeriodService_MarkPayrollPeriodAsProcessed NewPayrollPeriodService now requestID db
             periodID u ipAddress) \<noteq> Some PanicNilDereference
   \<and> audit_appended_by u db
        (snd (PayrollPeriodService_MarkPayrollPeriodAsProcessed NewPayrollPeriodService now requestID db
             periodID u ipAddress))"
proof -
  have 1: "(\<forall>old new. CreateAuditLog repo now rows userID action entityName entityID old new ipAddress
      requestID \<noteq> Inl PanicNilDereference) = (userID \<noteq> None)"
    by (rule CreateAuditLog_panic_free_iff)
  have 2: "json_Marshal oldValue = Inr oldJSON \<and> json_Marshal newValue = Inr newJSON \<longrightarrow>
        CreateAuditLog repo now rows None action entityName entityID oldValue newValue ipAddress requestID
          = Inl PanicNilDereference
        \<and> (\<exists>a. CreateAuditLog NewAuditLogGormRepository now rows (Some u) action entityName entityID
               oldValue newValue ipAddress requestID = Inr (None, rows @ [a])
             \<and> AuditLog.UserID a = Some u \<and> CreatedBy a = u \<and> UpdatedBy a = u)"
    using CreateAuditLog_nil_encoded[of oldValue oldJSON newValue newJSON]
      CreateAuditLog_gorm[of oldValue oldJSON newValue newJSON]
    by blast
  have 3: "json_Marshal unencodable = Inl err \<longrightarrow>
        CreateAuditLog repo now rows userID action entityName entityID unencodable newValue ipAddress
          requestID = Inr (Some err, rows)
        \<and> (json_Marshal oldValue = Inr oldJSON \<longrightarrow>
             CreateAuditLog repo now rows userID action entityName entityID oldValue unencodable ipAddress
               requestID = Inr (Some err, rows))"
    using CreateAuditLog_first_encoding_fails[of unencodable err]
      CreateAuditLog_second_encoding_fails[of oldValue oldJSON unencodable err]
    by blast
  have 4: "CreateAuditLog repo now rows None action entityName entityID oldValue newValue ipAddress requestID
          = Inl PanicNilDereference
        \<or> (\<exists>e. CreateAuditLog repo now rows None action entityName entityID oldValue newValue ipAddress
               requestID = Inr (Some e, rows))"
    by (rule CreateAuditLog_nil_cases)
  have 5: "\<exists>result. CreateAuditLog repo now rows (Some u) action entityName entityID oldValue newValue
          ipAddress requestID = Inr result"
    using CreateAuditLog_Some_cases[of repo now rows u action entityName entityID oldValue newValue
            ipAddress requestID] by blast
  show ?thesis
    apply (intro conjI)
                  apply (rule 1)
                 apply (rule 2)
                apply (rule 3)
               apply (rule 4)
              apply (rule 5)
             apply (rule conjunct1[OF RunPayroll_gorm_audit])
            apply (rule conjunct2[OF RunPayroll_gorm_audit])
           apply (rule conjunct1[OF SubmitAttendance_gorm_audit])
          apply (rule conjunct2[OF SubmitAttendance_gorm_audit])
         apply (rule conjunct1[OF SubmitOvertime_gorm_audit])
        apply (rule conjunct2[OF SubmitOvertime_gorm_audit])
       apply (rule conjunct1[OF SubmitReimbursement_gorm_audit])
      apply (rule conjunct2[OF SubmitReimbursement_gorm_audit])
     apply (rule conjunct1[OF CreatePayrollPeriod_gorm_audit])
    apply (rule conjunct2[OF CreatePayrollPeriod_gorm_audit])
   apply (rule conjunct1[OF MarkPayrollPeriodAsProcessed_gorm_audit])
  apply (rule conjunct2[OF MarkPayrollPeriodAsProcessed_gorm_audit])
  done
qed

text \<open>
  On the empty table of entries the helper panics on a nil actor with the snapshot
  \<open>nil\<close>, and returns the error of the encoding, writing nothing, when either snapshot
  does not encode; with the actor 1 it appends one entry of that actor. A check-in on
  Monday 2025-09-01 into the empty database leaves exactly one audit entry, whose actor
  is the submitting user, and so does marking the stored period as processed.
\<close>

theorem C10_audit_actor_never_nil_witness:
  "CreateAuditLog NewAuditLogGormRepository 0 [] None ''CREATE'' ''Attendance'' None AnyNil AnyNil
       ''10.0.0.2'' ''r7'' = Inl PanicNilDereference
   \<and> (\<exists>a. CreateAuditLog NewAuditLogGormRepository 0 [] (Some 1) ''CREATE'' ''Attendance'' None
          AnyNil AnyNil ''10.0.0.2'' ''r7'' = Inr (None, [a])
        \<and> AuditLog.UserID a = Some 1 \<and> CreatedBy a = 1 \<and> UpdatedBy a = 1)
   \<and> CreateAuditLog NewAuditLogGormRepository 0 [] None ''CREATE'' ''Attendance'' None
        AnyUnsupported AnyNil ''10.0.0.2'' ''r7'' = Inr (Some ErrJSONUnsupportedType, [])
   \<and> CreateAuditLog NewAuditLogGormRepository 0 [] None ''CREATE'' ''Attendance'' None
        AnyNil AnyUnsupported ''10.0.0.2'' ''r7'' = Inr (Some ErrJSONUnsupportedType, [])
   \<and> audit_appended_by 1 db_empty
        (snd (SubmitAttendance NewAttendanceService 0 db_empty 1 ((20332 * 24 + 9) * Hour)
                ((20332 * 24 + 17) * Hour) ''10.0.0.2'' ''r7''))
   \<and> length (tbl_audit_logs
        (snd (SubmitAttendance NewAttendanceService 0 db_empty 1 ((20332 * 24 + 9) * Hour)
                ((20332 * 24 + 17) * Hour) ''10.0.0.2'' ''r7''))) = 1
   \<and> list_all (\<lambda>a. AuditLog.UserID a = Some 1) (tbl_audit_logs
        (snd (SubmitAttendance NewAttendanceService 0 db_empty 1 ((20332 * 24 + 9) * Hour)
                ((20332 * 24 + 17) * Hour) ''10.0.0.2'' ''r7'')))
   \<and> fst (PayrollPeriodService_MarkPayrollPeriodAsProcessed NewPayrollPeriodService 0 ''r7'' db_period
             1 1 ''10.0.0.2'') = None
   \<and> length (tbl_audit_logs
        (snd (PayrollPeriodService_MarkPayrollPeriodAsProcessed NewPayrollPeriodService 0 ''r7'' db_period
             1 1 ''10.0.0.2''))) = 1
   \<and> list_all (\<lambda>a. AuditLog.UserID a = Some 1) (tbl_audit_logs
        (snd (PayrollPeriodService_MarkPayrollPeriodAsProcessed NewPayrollPeriodService 0 ''r7'' db_period
             1 1 ''10.0.0.2'')))"
proof -
  have len: "length (tbl_audit_logs
        (snd (SubmitAttendance NewAttendanceService 0 db_empty 1 ((20332 * 24 + 9) * Hour)
                ((20332 * 24 + 17) * Hour) ''10.0.0.2'' ''r7''))) = 1"
    by (simp add: SubmitAttendance_def NewAttendanceService_def NewAttendanceGormRepository_def
          AttendanceGorm_GetAttendanceByUserIDAndDate_def AttendanceGorm_CreateAttendance_def
          gorm_First_def gorm_Create_Nil_ID CreateAuditLog_gorm_eq Let_def db_empty_def
          Weekday_def FormatDate_def Hour_def)
  have first: "gorm_First (\<lambda>p. ID p = 1) (tbl_payroll_periods db_period) = Some period_sep"
    using gorm_First_period_sep by (simp add: db_period_def db_empty_def)
  have mark: "fst (PayrollPeriodService_MarkPayrollPeriodAsProcessed NewPayrollPeriodService 0 ''r7''
             db_period 1 1 ''10.0.0.2'') = None
     \<and> length (tbl_audit_logs
        (snd (PayrollPeriodService_MarkPayrollPeriodAsProcessed NewPayrollPeriodService 0 ''r7'' db_period
             1 1 ''10.0.0.2''))) = 1"
    using first
    by (simp add: PayrollPeriodService_MarkPayrollPeriodAsProcessed_def NewPayrollPeriodService_def
          NewPayrollPeriodGormRepository_def PayrollPeriodGorm_GetPayrollPeriodByID_def
          PayrollPeriodGorm_MarkPayrollPeriodAsProcessed_def CreateAuditLog_gorm_eq Let_def
          db_period_def db_empty_def)
  have e: "tbl_audit_logs db_empty = []" by (simp add: db_empty_def)
  have e': "tbl_audit_logs db_period = []" by (simp add: db_period_def db_empty_def)
  have m: "json_Marshal AnyNil = Inr JNull" "json_Marshal AnyUnsupported = Inl ErrJSONUnsupportedType"
    by simp_all
  note t = C10_audit_actor_never_nil[where repo = NewAuditLogGormRepository and now = 0 and rows = "[]"
      and userID = None
      and action = "''CREATE''" and entityName = "''Attendance''" and entityID = None
      and oldValue = AnyNil and newValue = AnyNil and oldJSON = JNull and newJSON = JNull
      and unencodable = AnyUnsupported and err = ErrJSONUnsupportedType
      and ipAddress = "''10.0.0.2''" and requestID = "''r7''"
      and u = 1 and db = db_empty and checkInTime = "(20332 * 24 + 9) * Hour"
      and checkOutTime = "(20332 * 24 + 17) * Hour"]
  note t' = C10_audit_actor_never_nil[where now = 0 and requestID = "''r7''" and db = db_period
      and periodID = 1 and u = 1 and ipAddress = "''10.0.0.2''"]
  from t m have p: "CreateAuditLog NewAuditLogGormRepository 0 [] None ''CREATE'' ''Attendance'' None AnyNil AnyNil
       ''10.0.0.2'' ''r7'' = Inl PanicNilDereference"
    by blast
  from t m have g: "\<exists>a. CreateAuditLog NewAuditLogGormRepository 0 [] (Some 1) ''CREATE'' ''Attendance'' None
          AnyNil AnyNil ''10.0.0.2'' ''r7'' = Inr (None, [a])
        \<and> AuditLog.UserID a = Some 1 \<and> CreatedBy a = 1 \<and> UpdatedBy a = 1"
    by simp
  from t m have f1: "CreateAuditLog NewAuditLogGormRepository 0 [] None ''CREATE'' ''Attendance'' None
        AnyUnsupported AnyNil ''10.0.0.2'' ''r7'' = Inr (Some ErrJSONUnsupportedType, [])"
    by blast
  from t m have f2: "CreateAuditLog NewAuditLogGormRepository 0 [] None ''CREATE'' ''Attendance'' None
        AnyNil AnyUnsupported ''10.0.0.2'' ''r7'' = Inr (Some ErrJSONUnsupportedType, [])"
    by blast
  from t have a: "audit_appended_by 1 db_empty
        (snd (SubmitAttendance NewAttendanceService 0 db_empty 1 ((20332 * 24 + 9) * Hour)
                ((20332 * 24 + 17) * Hour) ''10.0.0.2'' ''r7''))"
    by blast
  then have l: "list_all (\<lambda>a. AuditLog.UserID a = Some 1) (tbl_audit_logs
        (snd (SubmitAttendance NewAttendanceService 0 db_empty 1 ((20332 * 24 + 9) * Hour)
                ((20332 * 24 + 17) * Hour) ''10.0.0.2'' ''r7'')))"
    unfolding audit_appended_by_def e by auto
  from t' have "audit_appended_by 1 db_period
        (snd (PayrollPeriodService_MarkPayrollPeriodAsProcessed NewPayrollPeriodService 0 ''r7'' db_period
             1 1 ''10.0.0.2''))"
    by blast
  then have l': "list_all (\<lambda>a. AuditLog.UserID a = Some 1) (tbl_audit_logs
        (snd (PayrollPeriodService_MarkPayrollPeriodAsProcessed NewPayrollPeriodService 0 ''r7'' db_period
             1 1 ''10.0.0.2'')))"
    unfolding audit_appended_by_def e' by auto
  show ?thesis using p g f1 f2 a len l mark l' by blast
qed

end
